theory Spec2Isabelle
  imports Complex_Main "HOL-Library.Finite_Map"
begin

section \<open>The scoring calculators of redistricting/calculators.py\<close>

text \<open>
  The module defines a base class \<open>CalculatorBase\<close> (a result slot and an argument
  dictionary, with the argument resolver \<open>get_value\<close>) and five calculators:
  \<open>Schwartzberg\<close>, \<open>Sum\<close>, \<open>Percent\<close>, \<open>Threshold\<close> and \<open>Range\<close>. Each
  \<open>compute\<close> receives keyword arguments, reads a district or a plan from them and
  writes \<open>self.result\<close>.

  Python floats are modelled as the real numbers: \<open>sqrt\<close>, \<open>pi\<close>, sums and quotients
  are the exact ones, without rounding or overflow.
\<close>

subsection \<open>Python values and exceptions\<close>

text \<open>The exceptions that the code of the module can raise.\<close>

datatype error = KeyError | AttributeError | TypeError | ValueError | ZeroDivisionError

text \<open>
  The values stored in argument tuples and in the result slot: \<open>None\<close>, a boolean, an
  \<open>int\<close>, a number that is not an \<open>int\<close> (a \<open>float\<close>; the \<open>number\<close> of a
  measurement), or a string (configuration values such as \<open>'0.5'\<close> are strings). The
  \<open>int\<close> 0 and the \<open>float\<close> 0.0 are different values: they are equal as numbers,
  and \<open>html()\<close> and \<open>json()\<close> print them differently.
\<close>

datatype pyval = PyNone | PyBool bool | PyInt int | PyNum real | PyStr string

text \<open>
  Python's \<open>float(x)\<close>. Parsing a string is the work of the interpreter, not of this
  module: it is the parameter \<open>fs\<close>, which gives \<open>None\<close> where \<open>float\<close> raises
  \<open>ValueError\<close>.
\<close>

definition py_float :: "(string \<Rightarrow> real option) \<Rightarrow> pyval \<Rightarrow> error + real" where
  "py_float fs v =
     (case v of
        PyNone \<Rightarrow> Inl TypeError
      | PyBool b \<Rightarrow> Inr (if b then 1 else 0)
      | PyInt i \<Rightarrow> Inr (of_int i)
      | PyNum r \<Rightarrow> Inr r
      | PyStr s \<Rightarrow> (case fs s of None \<Rightarrow> Inl ValueError | Some r \<Rightarrow> Inr r))"

text \<open>
  \<open>x += y\<close> for a float \<open>y\<close>, where \<open>x\<close> is whatever the result slot holds: the
  sum of a number and a float is a float.
\<close>

definition py_iadd :: "pyval \<Rightarrow> real \<Rightarrow> error + pyval" where
  "py_iadd x y =
     (case x of
        PyNum r \<Rightarrow> Inr (PyNum (r + y))
      | PyInt i \<Rightarrow> Inr (PyNum (of_int i + y))
      | PyBool b \<Rightarrow> Inr (PyNum ((if b then 1 else 0) + y))
      | PyNone \<Rightarrow> Inl TypeError
      | PyStr s \<Rightarrow> Inl TypeError)"

text \<open>
  The values that are numbers, \<open>int\<close> or \<open>float\<close>, and the number that such a value
  holds.
\<close>

definition is_number :: "pyval \<Rightarrow> bool" where
  "is_number v = (case v of PyInt i \<Rightarrow> True | PyNum r \<Rightarrow> True | _ \<Rightarrow> False)"

definition number_of :: "pyval \<Rightarrow> real" where
  "number_of v = (case v of PyInt i \<Rightarrow> of_int i | PyNum r \<Rightarrow> r | _ \<Rightarrow> 0)"

subsection \<open>Districts, plans and keyword arguments\<close>

text \<open>
  The objects come from the application's database layer. The calculators read
  \<open>district.geom\<close> (possibly \<open>None\<close>) with its \<open>area\<close> and \<open>length\<close>, the rows of
  \<open>district.computedcharacteristic_set\<close> with their subject name and \<open>number\<close>, and
  \<open>plan.version\<close> with \<open>plan.get_districts_at_version\<close>.
\<close>

record geometry =
  area :: real
  length_geom :: real

record measurement =
  subject_name :: string
  number :: real

record district =
  geom :: "geometry option"
  computedcharacteristic_set :: "measurement list"

record plan =
  version :: int
  get_districts_at_version :: "int \<Rightarrow> district list"

text \<open>
  A keyword argument holds \<open>None\<close>, a district or a plan. Reading an attribute that
  the object does not have (\<open>None.geom\<close>, a plan's \<open>computedcharacteristic_set\<close>)
  raises \<open>AttributeError\<close>.
\<close>

datatype kwval = KNone | KDistrict district | KPlan plan

type_synonym kwargs = "string \<rightharpoonup> kwval"

text \<open>The two scopes of the specification, as the keyword arguments that carry them.\<close>

definition district_scope :: "district \<Rightarrow> kwargs" where
  "district_scope d = [''district'' \<mapsto> KDistrict d]"

definition plan_scope :: "plan \<Rightarrow> kwargs" where
  "plan_scope p = [''plan'' \<mapsto> KPlan p]"

subsection \<open>CalculatorBase\<close>

text \<open>
  \<open>result\<close> is \<open>None\<close> until a computation sets it; \<open>arg_dict\<close> maps an argument name
  to the tuple (type name, value). A Python dictionary has finitely many keys.
\<close>

record calculator =
  result :: pyval
  arg_dict :: "(string, string \<times> pyval) fmap"

text \<open>The state that the constructors \<open>__init__\<close> of the calculators leave.\<close>

definition init_calculator :: calculator where
  "init_calculator = \<lparr>result = PyNone, arg_dict = fmempty\<rparr>"

text \<open>
  \<open>get_value(argument, district)\<close>: the tuple is read with \<open>self.arg_dict[argument]\<close>
  (\<open>KeyError\<close> for an unknown name); a literal is returned as it is; a subject is looked
  up among the district's computed characteristics by subject name, and the first row's
  number is returned; everything else is \<open>None\<close>. The filter compares the subject name
  with the configured string.
\<close>

definition get_value :: "calculator \<Rightarrow> string \<Rightarrow> kwval \<Rightarrow> error + pyval" where
  "get_value self argument district =
     (case fmlookup (arg_dict self) argument of
        None \<Rightarrow> Inl KeyError
      | Some (argtype, argval) \<Rightarrow>
          if argtype = ''literal'' then Inr argval
          else if argtype = ''subject'' \<and> district \<noteq> KNone then
            (case district of
               KDistrict d \<Rightarrow>
                 (let cc = filter (\<lambda>m. argval = PyStr (subject_name m))
                             (computedcharacteristic_set d)
                  in if length cc = 0 then Inr PyNone
                     else Inr (PyNum (number (cc ! 0))))
             | KPlan p \<Rightarrow> Inl AttributeError
             | KNone \<Rightarrow> Inr PyNone)
          else Inr PyNone)"

text \<open>\<open>CalculatorBase.compute\<close> calculates nothing.\<close>

definition CalculatorBase_compute :: "calculator \<Rightarrow> kwargs \<Rightarrow> calculator \<times> error option" where
  "CalculatorBase_compute self kwargs = (self, None)"

subsection \<open>Schwartzberg\<close>

text \<open>
  \<open>math.sqrt\<close> raises \<open>ValueError\<close> on a negative argument, and the float division
  raises \<open>ZeroDivisionError\<close> on a zero divisor. A computation that raises has not written
  the result: the state is returned with the exception.
\<close>

definition Schwartzberg_compute :: "calculator \<Rightarrow> kwargs \<Rightarrow> calculator \<times> error option" where
  "Schwartzberg_compute self kwargs =
     (case kwargs ''district'' of
        None \<Rightarrow> (self, None)
      | Some KNone \<Rightarrow> (self, Some AttributeError)
      | Some (KPlan p) \<Rightarrow> (self, Some AttributeError)
      | Some (KDistrict district) \<Rightarrow>
          (case geom district of
             None \<Rightarrow> (self, None)
           | Some g \<Rightarrow>
               if area g / pi < 0 then (self, Some ValueError)
               else
                 let r = sqrt (area g / pi);
                     perimeter = 2 * pi * r
                 in if length_geom g = 0 then (self, Some ZeroDivisionError)
                    else (self\<lparr>result := PyNum (perimeter / length_geom g)\<rparr>, None)))"

subsection \<open>Sum\<close>

text \<open>The key \<open>'value%d' % argnum\<close>: the decimal digits of \<open>argnum\<close> after \<open>value\<close>.\<close>

definition digit_char :: "nat \<Rightarrow> char" where
  "digit_char d = ''0123456789'' ! d"

fun string_of_nat :: "nat \<Rightarrow> string" where
  "string_of_nat n =
     (if n < 10 then [digit_char n]
      else string_of_nat (n div 10) @ [digit_char (n mod 10)])"

declare string_of_nat.simps [simp del]

definition value_key :: "nat \<Rightarrow> string" where
  "value_key argnum = ''value'' @ string_of_nat argnum"

text \<open>
  The loop \<open>while ('value%d' % argnum) in self.arg_dict\<close> ends because the keys are
  finitely many and different numbers give different keys.
\<close>

lemma of_char_digit_char: "d < 10 \<Longrightarrow> of_char (digit_char d) = 48 + d"
  unfolding digit_char_def by (auto simp: less_Suc_eq numeral_eq_Suc)

lemma digit_char_inj:
  assumes "a < 10" "b < 10" "digit_char a = digit_char b"
  shows "a = b"
proof -
  have "of_char (digit_char a) = (of_char (digit_char b) :: nat)"
    using assms(3) by simp
  with assms(1,2) show ?thesis
    by (simp add: of_char_digit_char)
qed

lemma string_of_nat_nonempty: "string_of_nat n \<noteq> []"
  by (subst string_of_nat.simps) simp

lemma string_of_nat_inj: "string_of_nat n = string_of_nat m \<Longrightarrow> n = m"
proof (induction n arbitrary: m rule: string_of_nat.induct)
  case (1 n)
  show ?case
  proof (cases "n < 10")
    case nsmall: True
    show ?thesis
    proof (cases "m < 10")
      case True
      with nsmall "1.prems" show ?thesis
        by (simp add: string_of_nat.simps[of n] string_of_nat.simps[of m] digit_char_inj)
    next
      case False
      with nsmall "1.prems" string_of_nat_nonempty[of "m div 10"] show ?thesis
        by (simp add: string_of_nat.simps[of n] string_of_nat.simps[of m])
    qed
  next
    case nbig: False
    show ?thesis
    proof (cases "m < 10")
      case True
      with nbig "1.prems" string_of_nat_nonempty[of "n div 10"] show ?thesis
        by (simp add: string_of_nat.simps[of n] string_of_nat.simps[of m])
    next
      case False
      with nbig "1.prems" have eq: "string_of_nat (n div 10) = string_of_nat (m div 10)"
        and dg: "digit_char (n mod 10) = digit_char (m mod 10)"
        by (simp_all add: string_of_nat.simps[of n] string_of_nat.simps[of m])
      from "1.IH"[OF nbig eq] have "n div 10 = m div 10" .
      moreover from dg have "n mod 10 = m mod 10" by (intro digit_char_inj) simp_all
      ultimately show ?thesis by (metis div_mult_mod_eq)
    qed
  qed
qed

lemma value_key_inj: "value_key n = value_key m \<Longrightarrow> n = m"
  by (simp add: value_key_def string_of_nat_inj)

text \<open>The keys of the dictionary that the loop can still reach from \<open>argnum\<close>.\<close>

definition later_keys :: "(string, string \<times> pyval) fmap \<Rightarrow> nat \<Rightarrow> string set" where
  "later_keys m argnum = {k \<in> fmdom' m. \<exists>n\<ge>argnum. k = value_key n}"

lemma later_keys_decrease:
  assumes "fmlookup m (value_key argnum) \<noteq> None"
  shows "card (later_keys m (Suc argnum)) < card (later_keys m argnum)"
proof (rule psubset_card_mono)
  show "finite (later_keys m argnum)" by (simp add: later_keys_def)
  have "value_key argnum \<in> later_keys m argnum"
    using assms by (auto simp: later_keys_def intro: fmdom'I)
  moreover have "value_key argnum \<notin> later_keys m (Suc argnum)"
    by (auto simp: later_keys_def dest: value_key_inj)
  moreover have "later_keys m (Suc argnum) \<subseteq> later_keys m argnum"
    unfolding later_keys_def using Suc_leD by blast
  ultimately show "later_keys m (Suc argnum) \<subset> later_keys m argnum" by blast
qed

text \<open>
  The inner loop of \<open>Sum.compute\<close> for one district, from \<open>argnum\<close> on. It adds to
  \<open>self.result\<close> as it goes, so an exception leaves the partial sum in the slot.
\<close>

function sum_values ::
  "(string \<Rightarrow> real option) \<Rightarrow> calculator \<Rightarrow> kwval \<Rightarrow> nat \<Rightarrow> calculator \<times> error option" where
  "sum_values fs self district argnum =
     (if fmlookup (arg_dict self) (value_key argnum) \<noteq> None then
        (case get_value self (value_key argnum) district of
           Inl e \<Rightarrow> (self, Some e)
         | Inr numval \<Rightarrow>
             if numval \<noteq> PyNone then
               (case py_float fs numval of
                  Inl e \<Rightarrow> (self, Some e)
                | Inr x \<Rightarrow>
                    (case py_iadd (result self) x of
                       Inl e \<Rightarrow> (self, Some e)
                     | Inr r \<Rightarrow> sum_values fs (self\<lparr>result := r\<rparr>) district (Suc argnum)))
             else sum_values fs self district (Suc argnum))
      else (self, None))"
  by pat_completeness auto
termination
  by (relation "measure (\<lambda>(fs, self, district, argnum). card (later_keys (arg_dict self) argnum))")
     (auto intro: later_keys_decrease)

declare sum_values.simps [simp del]

text \<open>The outer loop \<open>for district in districts\<close>, restarting at \<open>argnum = 1\<close>.\<close>

fun sum_districts ::
  "(string \<Rightarrow> real option) \<Rightarrow> calculator \<Rightarrow> kwval list \<Rightarrow> calculator \<times> error option" where
  "sum_districts fs self [] = (self, None)"
| "sum_districts fs self (district # districts) =
     (case sum_values fs self district 1 of
        (self', Some e) \<Rightarrow> (self', Some e)
      | (self', None) \<Rightarrow> sum_districts fs self' districts)"

text \<open>
  \<open>Sum.compute\<close>: one district, or the districts of the plan at its version, else
  return; then \<open>self.result = 0\<close>, the \<open>int\<close>, and the two nested iterations.
\<close>

definition Sum_compute ::
  "(string \<Rightarrow> real option) \<Rightarrow> calculator \<Rightarrow> kwargs \<Rightarrow> calculator \<times> error option" where
  "Sum_compute fs self kwargs =
     (case kwargs ''district'' of
        Some district \<Rightarrow> sum_districts fs (self\<lparr>result := PyInt 0\<rparr>) [district]
      | None \<Rightarrow>
          (case kwargs ''plan'' of
             Some (KPlan plan) \<Rightarrow>
               sum_districts fs (self\<lparr>result := PyInt 0\<rparr>)
                 (map KDistrict (get_districts_at_version plan (version plan)))
           | Some (KDistrict d) \<Rightarrow> (self, Some AttributeError)
           | Some KNone \<Rightarrow> (self, Some AttributeError)
           | None \<Rightarrow> (self, None)))"

subsection \<open>Percent\<close>

text \<open>
  The plan branch of \<open>Percent.compute\<close>: the loop over the districts with the two
  accumulators \<open>num\<close> and \<open>den\<close>; a district with a \<open>None\<close> numerator or
  denominator is skipped by \<open>continue\<close>. The accumulators are local and are read only
  through \<open>float\<close> at the end, so the loop carries their numeric value.
\<close>

fun percent_plan_loop ::
  "(string \<Rightarrow> real option) \<Rightarrow> calculator \<Rightarrow> district list \<Rightarrow> real \<Rightarrow> real \<Rightarrow> error + real \<times> real" where
  "percent_plan_loop fs self [] num den = Inr (num, den)"
| "percent_plan_loop fs self (district # districts) num den =
     (case get_value self ''numerator'' (KDistrict district) of
        Inl e \<Rightarrow> Inl e
      | Inr tmpnum \<Rightarrow>
          (case get_value self ''denominator'' (KDistrict district) of
             Inl e \<Rightarrow> Inl e
           | Inr tmpden \<Rightarrow>
               if tmpnum = PyNone \<or> tmpden = PyNone
               then percent_plan_loop fs self districts num den
               else
                 (case py_float fs tmpden of
                    Inl e \<Rightarrow> Inl e
                  | Inr d \<Rightarrow>
                      (case py_float fs tmpnum of
                         Inl e \<Rightarrow> Inl e
                       | Inr n \<Rightarrow> percent_plan_loop fs self districts (num + n) (den + d)))))"

text \<open>
  The end of \<open>Percent.compute\<close>, shared by both branches: return if either value is
  \<open>None\<close>, else \<open>self.result = float(num) / float(den)\<close>.
\<close>

definition percent_finish ::
  "(string \<Rightarrow> real option) \<Rightarrow> calculator \<Rightarrow> pyval \<Rightarrow> pyval \<Rightarrow> calculator \<times> error option" where
  "percent_finish fs self num den =
     (if num = PyNone \<or> den = PyNone then (self, None)
      else
        (case py_float fs num of
           Inl e \<Rightarrow> (self, Some e)
         | Inr n \<Rightarrow>
             (case py_float fs den of
                Inl e \<Rightarrow> (self, Some e)
              | Inr d \<Rightarrow>
                  if d = 0 then (self, Some ZeroDivisionError)
                  else (self\<lparr>result := PyNum (n / d)\<rparr>, None))))"

definition Percent_compute ::
  "(string \<Rightarrow> real option) \<Rightarrow> calculator \<Rightarrow> kwargs \<Rightarrow> calculator \<times> error option" where
  "Percent_compute fs self kwargs =
     (case kwargs ''district'' of
        Some district \<Rightarrow>
          (case get_value self ''numerator'' district of
             Inl e \<Rightarrow> (self, Some e)
           | Inr num \<Rightarrow>
               (case get_value self ''denominator'' district of
                  Inl e \<Rightarrow> (self, Some e)
                | Inr den \<Rightarrow> percent_finish fs self num den))
      | None \<Rightarrow>
          (case kwargs ''plan'' of
             Some (KPlan plan) \<Rightarrow>
               (case percent_plan_loop fs self
                       (get_districts_at_version plan (version plan)) 0 0 of
                  Inl e \<Rightarrow> (self, Some e)
                | Inr (num, den) \<Rightarrow> percent_finish fs self (PyNum num) (PyNum den))
           | Some (KDistrict d) \<Rightarrow> (self, Some AttributeError)
           | Some KNone \<Rightarrow> (self, Some AttributeError)
           | None \<Rightarrow> (self, None)))"

subsection \<open>Threshold\<close>

text \<open>
  What \<open>Threshold.compute\<close> does once \<open>district\<close> is bound (to the keyword argument,
  or to \<open>None\<close> under the key \<open>plans\<close>).
\<close>

definition threshold_body ::
  "(string \<Rightarrow> real option) \<Rightarrow> calculator \<Rightarrow> kwval \<Rightarrow> calculator \<times> error option" where
  "threshold_body fs self district =
     (case get_value self ''value'' district of
        Inl e \<Rightarrow> (self, Some e)
      | Inr val \<Rightarrow>
          (case get_value self ''threshold'' district of
             Inl e \<Rightarrow> (self, Some e)
           | Inr thr \<Rightarrow>
               if val = PyNone \<or> thr = PyNone then (self, None)
               else
                 (case py_float fs val of
                    Inl e \<Rightarrow> (self, Some e)
                  | Inr v \<Rightarrow>
                      (case py_float fs thr of
                         Inl e \<Rightarrow> (self, Some e)
                       | Inr t \<Rightarrow> (self\<lparr>result := PyBool (v > t)\<rparr>, None)))))"

definition Threshold_compute ::
  "(string \<Rightarrow> real option) \<Rightarrow> calculator \<Rightarrow> kwargs \<Rightarrow> calculator \<times> error option" where
  "Threshold_compute fs self kwargs =
     (case kwargs ''district'' of
        Some district \<Rightarrow> threshold_body fs self district
      | None \<Rightarrow>
          (case kwargs ''plans'' of
             Some x \<Rightarrow> threshold_body fs self KNone
           | None \<Rightarrow> (self, None)))"

subsection \<open>Range\<close>

text \<open>
  \<open>float(val) > float(minval) and float(val) < float(maxval)\<close>: the right operand of
  \<open>and\<close>, and with it \<open>float(maxval)\<close>, is evaluated only when the left one is true.
\<close>

definition range_body ::
  "(string \<Rightarrow> real option) \<Rightarrow> calculator \<Rightarrow> kwval \<Rightarrow> calculator \<times> error option" where
  "range_body fs self district =
     (case get_value self ''value'' district of
        Inl e \<Rightarrow> (self, Some e)
      | Inr val \<Rightarrow>
          (case get_value self ''min'' district of
             Inl e \<Rightarrow> (self, Some e)
           | Inr minval \<Rightarrow>
               (case get_value self ''max'' district of
                  Inl e \<Rightarrow> (self, Some e)
                | Inr maxval \<Rightarrow>
                    if val = PyNone \<or> minval = PyNone \<or> maxval = PyNone then (self, None)
                    else
                      (case py_float fs val of
                         Inl e \<Rightarrow> (self, Some e)
                       | Inr v \<Rightarrow>
                           (case py_float fs minval of
                              Inl e \<Rightarrow> (self, Some e)
                            | Inr lo \<Rightarrow>
                                if v > lo then
                                  (case py_float fs maxval of
                                     Inl e \<Rightarrow> (self, Some e)
                                   | Inr hi \<Rightarrow> (self\<lparr>result := PyBool (v < hi)\<rparr>, None))
                                else (self\<lparr>result := PyBool False\<rparr>, None))))))"

definition Range_compute ::
  "(string \<Rightarrow> real option) \<Rightarrow> calculator \<Rightarrow> kwargs \<Rightarrow> calculator \<times> error option" where
  "Range_compute fs self kwargs =
     (case kwargs ''district'' of
        Some district \<Rightarrow> range_body fs self district
      | None \<Rightarrow>
          (case kwargs ''plans'' of
             Some x \<Rightarrow> range_body fs self KNone
           | None \<Rightarrow> (self, None)))"

subsection \<open>Example objects\<close>

text \<open>
  A district without geometry and with three measurements, two of them for the
  subject \<open>pop\<close>; a district without any measurement; a calculator configured with a
  literal and a subject argument.
\<close>

definition pop_district :: district where
  "pop_district =
     \<lparr>geom = None,
      computedcharacteristic_set =
        [\<lparr>subject_name = ''vap'', number = 80\<rparr>,
         \<lparr>subject_name = ''pop'', number = 100\<rparr>,
         \<lparr>subject_name = ''pop'', number = 7\<rparr>]\<rparr>"

definition bare_district :: district where
  "bare_district = \<lparr>geom = None, computedcharacteristic_set = []\<rparr>"

definition resolver_calc :: calculator where
  "resolver_calc =
     init_calculator\<lparr>arg_dict :=
       fmupd ''minimum'' (''literal'', PyStr ''0.5'')
         (fmupd ''value'' (''subject'', PyStr ''pop'') fmempty)\<rparr>"

text \<open>
  A calculator for \<open>Threshold\<close> and \<open>Range\<close> whose value is a subject and whose
  bounds are literals, and the calculators of the examples with literal arguments only.
\<close>

definition flag_calc :: calculator where
  "flag_calc =
     init_calculator\<lparr>arg_dict :=
       fmupd ''value'' (''subject'', PyStr ''pop'')
         (fmupd ''threshold'' (''literal'', PyNum 5)
           (fmupd ''min'' (''literal'', PyNum 1)
             (fmupd ''max'' (''literal'', PyNum 10) fmempty)))\<rparr>"

definition threshold_calc :: "real \<Rightarrow> real \<Rightarrow> calculator" where
  "threshold_calc v t =
     init_calculator\<lparr>arg_dict :=
       fmupd ''value'' (''literal'', PyNum v)
         (fmupd ''threshold'' (''literal'', PyNum t) fmempty)\<rparr>"

definition range_calc :: "real \<Rightarrow> real \<Rightarrow> real \<Rightarrow> calculator" where
  "range_calc v lo hi =
     init_calculator\<lparr>arg_dict :=
       fmupd ''value'' (''literal'', PyNum v)
         (fmupd ''min'' (''literal'', PyNum lo)
           (fmupd ''max'' (''literal'', PyNum hi) fmempty))\<rparr>"

text \<open>A calculator for \<open>Threshold\<close> and \<open>Range\<close> with literal arguments only.\<close>

definition literal_calc :: calculator where
  "literal_calc =
     init_calculator\<lparr>arg_dict :=
       fmupd ''value'' (''literal'', PyNum 5)
         (fmupd ''threshold'' (''literal'', PyNum 3)
           (fmupd ''min'' (''literal'', PyNum 1)
             (fmupd ''max'' (''literal'', PyNum 10) fmempty)))\<rparr>"

text \<open>A string parser that accepts nothing, for examples without string literals.\<close>

definition no_parse :: "string \<Rightarrow> real option" where
  "no_parse s = None"

text \<open>
  A district whose geometry is the unit circle, and one whose geometry is empty (area
  and perimeter zero).
\<close>

definition circle_district :: district where
  "circle_district =
     \<lparr>geom = Some \<lparr>area = pi, length_geom = 2 * pi\<rparr>, computedcharacteristic_set = []\<rparr>"

definition empty_geom_district :: district where
  "empty_geom_district =
     \<lparr>geom = Some \<lparr>area = 0, length_geom = 0\<rparr>, computedcharacteristic_set = []\<rparr>"

text \<open>
  Calculators for \<open>Sum\<close>: \<open>value1\<close> and \<open>value3\<close> without \<open>value2\<close>; \<open>value1\<close>
  alone; \<open>value1\<close> as a subject; \<open>value1\<close> as the literal 0.
\<close>

definition gap_calc :: calculator where
  "gap_calc =
     init_calculator\<lparr>arg_dict :=
       fmupd ''value3'' (''literal'', PyNum 5)
         (fmupd ''value1'' (''literal'', PyNum 1) fmempty)\<rparr>"

definition one_calc :: calculator where
  "one_calc =
     init_calculator\<lparr>arg_dict := fmupd ''value1'' (''literal'', PyNum 1) fmempty\<rparr>"



text \<open>A plan whose districts are \<open>ds\<close> at every version.\<close>

definition plan_with :: "district list \<Rightarrow> plan" where
  "plan_with ds = \<lparr>version = 0, get_districts_at_version = (\<lambda>v. ds)\<rparr>"

text \<open>
  For \<open>Percent\<close>: a calculator whose numerator is the subject \<open>dem\<close> and whose
  denominator is the subject \<open>pop\<close>; a district with a measurement for each; a district
  with a measurement for \<open>dem\<close> only.
\<close>

definition share_calc :: calculator where
  "share_calc =
     init_calculator\<lparr>arg_dict :=
       fmupd ''numerator'' (''subject'', PyStr ''dem'')
         (fmupd ''denominator'' (''subject'', PyStr ''pop'') fmempty)\<rparr>"

definition counted_district :: "real \<Rightarrow> real \<Rightarrow> district" where
  "counted_district x y =
     \<lparr>geom = None,
      computedcharacteristic_set =
        [\<lparr>subject_name = ''dem'', number = x\<rparr>, \<lparr>subject_name = ''pop'', number = y\<rparr>]\<rparr>"

definition dem_only_district :: district where
  "dem_only_district =
     \<lparr>geom = None, computedcharacteristic_set = [\<lparr>subject_name = ''dem'', number = 9\<rparr>]\<rparr>"

text \<open>What a subject resolves to in a district; it names the resolved values in the examples.\<close>

definition measured :: "string \<Rightarrow> district \<Rightarrow> pyval" where
  "measured s d =
     (case find (\<lambda>m. subject_name m = s) (computedcharacteristic_set d) of
        None \<Rightarrow> PyNone
      | Some m \<Rightarrow> PyNum (number m))"


section \<open>Properties\<close>

subsection \<open>The argument resolver\<close>

lemma filter_first_match:
  "(case filter P xs of [] \<Rightarrow> a | x # ys \<Rightarrow> f x) =
   (case find P xs of None \<Rightarrow> a | Some x \<Rightarrow> f x)"
  by (induction xs) auto

lemma get_value_literal:
  "fmlookup (arg_dict self) a = Some (''literal'', v) \<Longrightarrow> get_value self a district = Inr v"
  by (simp add: get_value_def)

lemma get_value_subject_no_district:
  "fmlookup (arg_dict self) a = Some (''subject'', v) \<Longrightarrow> get_value self a KNone = Inr PyNone"
  by (simp add: get_value_def)

lemma get_value_subject_district:
  assumes a: "fmlookup (arg_dict self) a = Some (''subject'', v)"
  shows "get_value self a (KDistrict d) =
     (case find (\<lambda>m. PyStr (subject_name m) = v) (computedcharacteristic_set d) of
        None \<Rightarrow> Inr PyNone
      | Some m \<Rightarrow> Inr (PyNum (number m)))"
proof -
  let ?P = "\<lambda>m. PyStr (subject_name m) = v"
  let ?cc = "filter ?P (computedcharacteristic_set d)"
  have eqP: "(\<lambda>m. v = PyStr (subject_name m)) = ?P" by auto
  have "get_value self a (KDistrict d) =
          (case ?cc of [] \<Rightarrow> Inr PyNone | m # ms \<Rightarrow> Inr (PyNum (number m)))"
    using a by (simp add: get_value_def Let_def eqP split: list.split)
  then show ?thesis by (simp only: filter_first_match)
qed

lemma get_value_missing_key:
  "fmlookup (arg_dict self) a = None \<Longrightarrow> get_value self a district = Inl KeyError"
  by (simp add: get_value_def)

text \<open>
  C7. A literal argument resolves to its stored value whatever the district argument
  is, also without a district. A subject argument resolves to \<open>None\<close> when no district
  is given; with a district it resolves to the number of the first measurement of the
  district whose subject name is the configured one, and to \<open>None\<close> when there is no
  such measurement.
\<close>

theorem get_value_resolves:
  "(fmlookup (arg_dict self) a = Some (''literal'', v) \<longrightarrow> get_value self a district = Inr v)
   \<and> (fmlookup (arg_dict self) b = Some (''subject'', w) \<longrightarrow>
        get_value self b KNone = Inr PyNone
        \<and> get_value self b (KDistrict d) =
            (case find (\<lambda>m. PyStr (subject_name m) = w) (computedcharacteristic_set d) of
               None \<Rightarrow> Inr PyNone
             | Some m \<Rightarrow> Inr (PyNum (number m))))"
  using get_value_literal get_value_subject_no_district get_value_subject_district by blast

theorem get_value_resolves_witness:
  "fmlookup (arg_dict resolver_calc) ''minimum'' = Some (''literal'', PyStr ''0.5'')
   \<and> get_value resolver_calc ''minimum'' KNone = Inr (PyStr ''0.5'')
   \<and> fmlookup (arg_dict resolver_calc) ''value'' = Some (''subject'', PyStr ''pop'')
   \<and> get_value resolver_calc ''value'' KNone = Inr PyNone
   \<and> get_value resolver_calc ''value'' (KDistrict pop_district) = Inr (PyNum 100)"
  using get_value_resolves [where self = resolver_calc and a = "''minimum''"
      and v = "PyStr ''0.5''" and district = KNone and b = "''value''"
      and w = "PyStr ''pop''" and d = pop_district]
  by (simp add: resolver_calc_def init_calculator_def pop_district_def)

subsection \<open>Unconfigured argument names\<close>

lemma get_value_district_error:
  "get_value self a (KDistrict d) = Inl e \<Longrightarrow> e = KeyError"
  by (auto simp: get_value_def Let_def split: option.splits if_splits)

lemma get_value_district_cases:
  "get_value self a (KDistrict d) = Inl KeyError \<or> (\<exists>v. get_value self a (KDistrict d) = Inr v)"
  by (cases "get_value self a (KDistrict d)") (auto dest: get_value_district_error)

lemma district_scope_district [simp]: "district_scope d ''district'' = Some (KDistrict d)"
  by (simp add: district_scope_def)

lemma plan_scope_lookup [simp]:
  "plan_scope p ''district'' = None" "plan_scope p ''plan'' = Some (KPlan p)"
  "plan_scope p ''plans'' = None"
  by (simp_all add: plan_scope_def)

lemma percent_missing_key:
  assumes "fmlookup (arg_dict self) ''numerator'' = None \<or> fmlookup (arg_dict self) ''denominator'' = None"
  shows "Percent_compute fs self (district_scope d) = (self, Some KeyError)"
proof (cases "fmlookup (arg_dict self) ''numerator''")
  case None
  then show ?thesis by (simp add: Percent_compute_def get_value_missing_key)
next
  case (Some t)
  with assms have den: "get_value self ''denominator'' (KDistrict d) = Inl KeyError"
    by (simp add: get_value_missing_key)
  from get_value_district_cases[of self "''numerator''" d] den show ?thesis
    by (auto simp: Percent_compute_def)
qed

lemma threshold_missing_key:
  assumes "fmlookup (arg_dict self) ''value'' = None \<or> fmlookup (arg_dict self) ''threshold'' = None"
  shows "Threshold_compute fs self (district_scope d) = (self, Some KeyError)"
proof (cases "fmlookup (arg_dict self) ''value''")
  case None
  then show ?thesis by (simp add: Threshold_compute_def threshold_body_def get_value_missing_key)
next
  case (Some t)
  with assms have thr: "get_value self ''threshold'' (KDistrict d) = Inl KeyError"
    by (simp add: get_value_missing_key)
  from get_value_district_cases[of self "''value''" d] thr show ?thesis
    by (auto simp: Threshold_compute_def threshold_body_def)
qed

lemma range_missing_key:
  assumes "fmlookup (arg_dict self) ''value'' = None \<or> fmlookup (arg_dict self) ''min'' = None
           \<or> fmlookup (arg_dict self) ''max'' = None"
  shows "Range_compute fs self (district_scope d) = (self, Some KeyError)"
proof -
  note c = get_value_district_cases[of self _ d]
  from assms consider
    "get_value self ''value'' (KDistrict d) = Inl KeyError"
    | "get_value self ''min'' (KDistrict d) = Inl KeyError"
    | "get_value self ''max'' (KDistrict d) = Inl KeyError"
    by (auto simp: get_value_missing_key)
  then show ?thesis
  proof cases
    case 1
    then show ?thesis by (simp add: Range_compute_def range_body_def)
  next
    case 2
    with c[of "''value''"] show ?thesis by (auto simp: Range_compute_def range_body_def)
  next
    case 3
    with c[of "''value''"] c[of "''min''"] show ?thesis
      by (auto simp: Range_compute_def range_body_def)
  qed
qed
text \<open>
  C8. An argument name that is not a key of the argument dictionary makes \<open>get_value\<close>
  raise \<open>KeyError\<close>. On a district scope \<open>Percent.compute\<close>, \<open>Threshold.compute\<close> and
  \<open>Range.compute\<close> therefore raise \<open>KeyError\<close>, leaving the calculator as it was,
  whenever one of their required names is not configured; they do not return normally.
\<close>

theorem missing_argument_name_faults:
  "(fmlookup (arg_dict self) a = None \<longrightarrow> get_value self a district = Inl KeyError)
   \<and> (fmlookup (arg_dict self) ''numerator'' = None \<or> fmlookup (arg_dict self) ''denominator'' = None
        \<longrightarrow> Percent_compute fs self (district_scope d) = (self, Some KeyError))
   \<and> (fmlookup (arg_dict self) ''value'' = None \<or> fmlookup (arg_dict self) ''threshold'' = None
        \<longrightarrow> Threshold_compute fs self (district_scope d) = (self, Some KeyError))
   \<and> (fmlookup (arg_dict self) ''value'' = None \<or> fmlookup (arg_dict self) ''min'' = None
          \<or> fmlookup (arg_dict self) ''max'' = None
        \<longrightarrow> Range_compute fs self (district_scope d) = (self, Some KeyError))"
  using get_value_missing_key percent_missing_key threshold_missing_key range_missing_key
  by blast

theorem missing_argument_name_faults_witness:
  "fmlookup (arg_dict resolver_calc) ''numerator'' = None
   \<and> fmlookup (arg_dict resolver_calc) ''threshold'' = None
   \<and> fmlookup (arg_dict resolver_calc) ''min'' = None
   \<and> get_value resolver_calc ''numerator'' (KDistrict pop_district) = Inl KeyError
   \<and> Percent_compute no_parse resolver_calc (district_scope pop_district) = (resolver_calc, Some KeyError)
   \<and> Threshold_compute no_parse resolver_calc (district_scope pop_district) = (resolver_calc, Some KeyError)
   \<and> Range_compute no_parse resolver_calc (district_scope pop_district) = (resolver_calc, Some KeyError)"
  using missing_argument_name_faults [where self = resolver_calc and a = "''numerator''"
      and district = "KDistrict pop_district" and d = pop_district and fs = no_parse]
  by (simp add: resolver_calc_def init_calculator_def)

subsection \<open>Threshold and Range on a district\<close>

lemma py_float_not_None: "py_float fs v = Inr x \<Longrightarrow> v \<noteq> PyNone"
  by (auto simp: py_float_def)

lemma threshold_district:
  assumes "get_value self ''value'' (KDistrict d) = Inr val"
    and "get_value self ''threshold'' (KDistrict d) = Inr thr"
  shows "val = PyNone \<or> thr = PyNone \<Longrightarrow>
           Threshold_compute fs self (district_scope d) = (self, None)"
    and "py_float fs val = Inr v \<Longrightarrow> py_float fs thr = Inr t \<Longrightarrow>
           Threshold_compute fs self (district_scope d) = (self\<lparr>result := PyBool (t < v)\<rparr>, None)"
  using assms
  by (auto simp: Threshold_compute_def threshold_body_def dest: py_float_not_None)

lemma range_district:
  assumes "get_value self ''value'' (KDistrict d) = Inr val"
    and "get_value self ''min'' (KDistrict d) = Inr minval"
    and "get_value self ''max'' (KDistrict d) = Inr maxval"
  shows "val = PyNone \<or> minval = PyNone \<or> maxval = PyNone \<Longrightarrow>
           Range_compute fs self (district_scope d) = (self, None)"
    and "py_float fs val = Inr v \<Longrightarrow> py_float fs minval = Inr lo \<Longrightarrow> py_float fs maxval = Inr hi \<Longrightarrow>
           Range_compute fs self (district_scope d) = (self\<lparr>result := PyBool (lo < v \<and> v < hi)\<rparr>, None)"
  using assms
  by (auto simp: Range_compute_def range_body_def dest: py_float_not_None)
text \<open>
  C6. On a district scope, when the required arguments are configured and their resolved
  values convert to numbers, \<open>Threshold.compute\<close> sets the result to the strict
  comparison \<open>value > threshold\<close> and \<open>Range.compute\<close> to \<open>min < value < max\<close>, both
  bounds excluded; when one of the resolved values is \<open>None\<close>, each returns without
  touching the result. With literals: 5 against threshold 5 gives false, 5.0001 gives
  true; 1 in the range from 1 to 10 gives false, 5 gives true.
\<close>

theorem threshold_range_district:
  "(get_value self ''value'' (KDistrict d) = Inr val
      \<and> get_value self ''threshold'' (KDistrict d) = Inr thr \<longrightarrow>
      (val = PyNone \<or> thr = PyNone \<longrightarrow>
         Threshold_compute fs self (district_scope d) = (self, None))
      \<and> (py_float fs val = Inr v \<and> py_float fs thr = Inr t \<longrightarrow>
         Threshold_compute fs self (district_scope d) = (self\<lparr>result := PyBool (v > t)\<rparr>, None)))
   \<and> (get_value self ''value'' (KDistrict d) = Inr val
      \<and> get_value self ''min'' (KDistrict d) = Inr minval
      \<and> get_value self ''max'' (KDistrict d) = Inr maxval \<longrightarrow>
      (val = PyNone \<or> minval = PyNone \<or> maxval = PyNone \<longrightarrow>
         Range_compute fs self (district_scope d) = (self, None))
      \<and> (py_float fs val = Inr v \<and> py_float fs minval = Inr lo \<and> py_float fs maxval = Inr hi \<longrightarrow>
         Range_compute fs self (district_scope d) =
           (self\<lparr>result := PyBool (lo < v \<and> v < hi)\<rparr>, None)))
   \<and> result (fst (Threshold_compute fs (threshold_calc 5 5) (district_scope d))) = PyBool False
   \<and> result (fst (Threshold_compute fs (threshold_calc 5.0001 5) (district_scope d))) = PyBool True
   \<and> result (fst (Range_compute fs (range_calc 1 1 10) (district_scope d))) = PyBool False
   \<and> result (fst (Range_compute fs (range_calc 5 1 10) (district_scope d))) = PyBool True"
proof -
  have ex: "result (fst (Threshold_compute fs (threshold_calc 5 5) (district_scope d))) = PyBool False"
    "result (fst (Threshold_compute fs (threshold_calc 5.0001 5) (district_scope d))) = PyBool True"
    by (simp_all add: Threshold_compute_def threshold_body_def threshold_calc_def
        init_calculator_def get_value_def py_float_def)
  have ex2: "result (fst (Range_compute fs (range_calc 1 1 10) (district_scope d))) = PyBool False"
    "result (fst (Range_compute fs (range_calc 5 1 10) (district_scope d))) = PyBool True"
    by (simp_all add: Range_compute_def range_body_def range_calc_def
        init_calculator_def get_value_def py_float_def)
  show ?thesis
    by (intro conjI impI; (elim conjE)?;
        (rule threshold_district range_district ex ex2; assumption)?)
qed

theorem threshold_range_district_witness:
  "get_value flag_calc ''value'' (KDistrict bare_district) = Inr PyNone
   \<and> get_value flag_calc ''threshold'' (KDistrict bare_district) = Inr (PyNum 5)
   \<and> get_value flag_calc ''min'' (KDistrict bare_district) = Inr (PyNum 1)
   \<and> get_value flag_calc ''max'' (KDistrict bare_district) = Inr (PyNum 10)
   \<and> Threshold_compute no_parse flag_calc (district_scope bare_district) = (flag_calc, None)
   \<and> Range_compute no_parse flag_calc (district_scope bare_district) = (flag_calc, None)
   \<and> get_value flag_calc ''value'' (KDistrict pop_district) = Inr (PyNum 100)
   \<and> get_value flag_calc ''threshold'' (KDistrict pop_district) = Inr (PyNum 5)
   \<and> get_value flag_calc ''min'' (KDistrict pop_district) = Inr (PyNum 1)
   \<and> get_value flag_calc ''max'' (KDistrict pop_district) = Inr (PyNum 10)
   \<and> py_float no_parse (PyNum 100) = Inr 100 \<and> py_float no_parse (PyNum 5) = Inr 5
   \<and> py_float no_parse (PyNum 1) = Inr 1 \<and> py_float no_parse (PyNum 10) = Inr 10
   \<and> Threshold_compute no_parse flag_calc (district_scope pop_district)
       = (flag_calc\<lparr>result := PyBool True\<rparr>, None)
   \<and> Range_compute no_parse flag_calc (district_scope pop_district)
       = (flag_calc\<lparr>result := PyBool False\<rparr>, None)"
proof -
  have g: "get_value flag_calc ''value'' (KDistrict bare_district) = Inr PyNone"
    "get_value flag_calc ''threshold'' (KDistrict bare_district) = Inr (PyNum 5)"
    "get_value flag_calc ''min'' (KDistrict bare_district) = Inr (PyNum 1)"
    "get_value flag_calc ''max'' (KDistrict bare_district) = Inr (PyNum 10)"
    "get_value flag_calc ''value'' (KDistrict pop_district) = Inr (PyNum 100)"
    "get_value flag_calc ''threshold'' (KDistrict pop_district) = Inr (PyNum 5)"
    "get_value flag_calc ''min'' (KDistrict pop_district) = Inr (PyNum 1)"
    "get_value flag_calc ''max'' (KDistrict pop_district) = Inr (PyNum 10)"
    by (simp_all add: get_value_def flag_calc_def init_calculator_def bare_district_def
        pop_district_def)
  have f: "py_float no_parse (PyNum 100) = Inr 100" "py_float no_parse (PyNum 5) = Inr 5"
    "py_float no_parse (PyNum 1) = Inr 1" "py_float no_parse (PyNum 10) = Inr 10"
    by (simp_all add: py_float_def)
  show ?thesis
    using threshold_range_district [where self = flag_calc and d = bare_district
        and val = PyNone and thr = "PyNum 5" and minval = "PyNum 1" and maxval = "PyNum 10"
        and fs = no_parse]
      threshold_range_district [where self = flag_calc and d = pop_district
        and val = "PyNum 100" and thr = "PyNum 5" and minval = "PyNum 1" and maxval = "PyNum 10"
        and fs = no_parse and v = 100 and t = 5 and lo = 1 and hi = 10]
    by (simp add: g f)
qed

subsection \<open>Computing twice\<close>

lemma get_value_result_update [simp]:
  "get_value (self\<lparr>result := r\<rparr>) a d = get_value self a d"
  by (simp add: get_value_def)

lemma percent_plan_loop_result_update [simp]:
  "percent_plan_loop fs (self\<lparr>result := r\<rparr>) ds n m = percent_plan_loop fs self ds n m"
  by (induction ds arbitrary: n m) (auto split: sum.splits)

lemma schwartzberg_idem:
  "Schwartzberg_compute (fst (Schwartzberg_compute self kw)) kw = Schwartzberg_compute self kw"
  by (auto simp: Schwartzberg_compute_def Let_def split: option.splits kwval.splits)

lemma percent_finish_idem:
  "percent_finish fs (fst (percent_finish fs self a b)) a b = percent_finish fs self a b"
  by (auto simp: percent_finish_def split: sum.splits)

lemma percent_finish_result_update:
  "fst (percent_finish fs self a b) = self \<or> (\<exists>r. fst (percent_finish fs self a b) = self\<lparr>result := r\<rparr>)"
  by (auto simp: percent_finish_def split: sum.splits)

lemma get_value_after_percent_finish [simp]:
  "get_value (fst (percent_finish fs self a b)) x d = get_value self x d"
  by (auto simp: percent_finish_def split: sum.splits)

lemma percent_plan_loop_after_percent_finish [simp]:
  "percent_plan_loop fs' (fst (percent_finish fs self a b)) ds n m = percent_plan_loop fs' self ds n m"
  by (auto simp: percent_finish_def split: sum.splits)

lemma percent_idem:
  "Percent_compute fs (fst (Percent_compute fs self kw)) kw = Percent_compute fs self kw"
  by (auto simp: Percent_compute_def percent_finish_idem
      split: option.splits kwval.splits sum.splits)

lemma threshold_body_idem:
  "threshold_body fs (fst (threshold_body fs self d)) d = threshold_body fs self d"
  by (auto simp: threshold_body_def split: sum.splits)

lemma threshold_idem:
  "Threshold_compute fs (fst (Threshold_compute fs self kw)) kw = Threshold_compute fs self kw"
  by (auto simp: Threshold_compute_def threshold_body_idem split: option.splits)

lemma range_body_idem:
  "range_body fs (fst (range_body fs self d)) d = range_body fs self d"
  by (auto simp: range_body_def split: sum.splits)

lemma range_idem:
  "Range_compute fs (fst (Range_compute fs self kw)) kw = Range_compute fs self kw"
  by (auto simp: Range_compute_def range_body_idem split: option.splits)

lemma sum_values_arg_dict [simp]:
  "arg_dict (fst (sum_values fs self d n)) = arg_dict self"
proof (induction fs self d n rule: sum_values.induct)
  case (1 fs self district argnum)
  then show ?case
    by (simp add: sum_values.simps[of fs self district argnum] split: sum.splits)
qed

lemma sum_districts_arg_dict [simp]:
  "arg_dict (fst (sum_districts fs self ds)) = arg_dict self"
proof (induction ds arbitrary: self)
  case Nil
  show ?case by simp
next
  case (Cons d ds)
  show ?case
  proof (cases "sum_values fs self d 1")
    case (Pair s e)
    have "arg_dict (fst (sum_values fs self d 1)) = arg_dict self"
      by (rule sum_values_arg_dict)
    then have "arg_dict s = arg_dict self"
      by (simp only: Pair fst_conv)
    with Pair Cons show ?thesis by (cases e) simp_all
  qed
qed

lemma sum_idem:
  "Sum_compute fs (fst (Sum_compute fs self kw)) kw = Sum_compute fs self kw"
proof -
  have reset: "\<And>ds. (fst (sum_districts fs (self\<lparr>result := PyInt 0\<rparr>) ds))\<lparr>result := PyInt 0\<rparr>
                 = self\<lparr>result := PyInt 0\<rparr>"
    by simp
  show ?thesis
    by (simp add: Sum_compute_def reset del: sum_districts.simps
        split: option.splits kwval.splits)
qed
text \<open>
  C10. For the base class and each of the five calculators, a second \<open>compute\<close> with the same keyword
  arguments, run on the calculator that the first one left, ends in the same state,
  result slot included, and with the same outcome as the first.
\<close>

theorem compute_idempotent:
  "CalculatorBase_compute (fst (CalculatorBase_compute self kw)) kw = CalculatorBase_compute self kw
   \<and> Schwartzberg_compute (fst (Schwartzberg_compute self kw)) kw = Schwartzberg_compute self kw
   \<and> Sum_compute fs (fst (Sum_compute fs self kw)) kw = Sum_compute fs self kw
   \<and> Percent_compute fs (fst (Percent_compute fs self kw)) kw = Percent_compute fs self kw
   \<and> Threshold_compute fs (fst (Threshold_compute fs self kw)) kw = Threshold_compute fs self kw
   \<and> Range_compute fs (fst (Range_compute fs self kw)) kw = Range_compute fs self kw"
  by (simp only: CalculatorBase_compute_def fst_conv schwartzberg_idem sum_idem percent_idem
      threshold_idem range_idem)

subsection \<open>Schwartzberg on a district\<close>

text \<open>
  C5, as stated, fails for a geometry whose perimeter is zero: the division raises
  \<open>ZeroDivisionError\<close> and the result stays \<open>None\<close>.
\<close>

theorem schwartzberg_zero_perimeter_counterexample:
  "geom empty_geom_district = Some \<lparr>area = 0, length_geom = 0\<rparr>
   \<and> Schwartzberg_compute init_calculator (district_scope empty_geom_district)
       = (init_calculator, Some ZeroDivisionError)
   \<and> result (fst (Schwartzberg_compute init_calculator (district_scope empty_geom_district)))
       = PyNone"
  by (simp add: Schwartzberg_compute_def empty_geom_district_def init_calculator_def)

text \<open>
  C5, amended. On a district scope \<open>Schwartzberg.compute\<close> returns without touching
  the result when the geometry is absent. For a geometry with a non-negative area and a
  non-zero perimeter it sets the result to \<open>2 * pi * sqrt (area / pi)\<close> divided by the
  perimeter, where the circle of radius \<open>sqrt (area / pi)\<close> has the area of the district.
  For the circle with area \<open>pi\<close> and perimeter \<open>2 * pi\<close> the result is 1.
\<close>

theorem schwartzberg_district:
  "(geom d = None \<longrightarrow> Schwartzberg_compute self (district_scope d) = (self, None))
   \<and> (geom d = Some g \<and> 0 \<le> area g \<and> length_geom g \<noteq> 0 \<longrightarrow>
        Schwartzberg_compute self (district_scope d)
          = (self\<lparr>result := PyNum (2 * pi * sqrt (area g / pi) / length_geom g)\<rparr>, None)
        \<and> pi * (sqrt (area g / pi))\<^sup>2 = area g)
   \<and> Schwartzberg_compute self (district_scope circle_district)
       = (self\<lparr>result := PyNum 1\<rparr>, None)"
  by (auto simp: Schwartzberg_compute_def Let_def circle_district_def divide_less_0_iff)

theorem schwartzberg_district_witness:
  "geom bare_district = None
   \<and> Schwartzberg_compute init_calculator (district_scope bare_district) = (init_calculator, None)
   \<and> geom circle_district = Some \<lparr>area = pi, length_geom = 2 * pi\<rparr>
   \<and> Schwartzberg_compute init_calculator (district_scope circle_district)
       = (init_calculator\<lparr>result := PyNum 1\<rparr>, None)"
  using schwartzberg_district [where d = bare_district and self = init_calculator]
    schwartzberg_district [where d = circle_district and self = init_calculator
      and g = "\<lparr>area = pi, length_geom = 2 * pi\<rparr>"]
  by (simp add: bare_district_def circle_district_def)

subsection \<open>The iterations of Sum\<close>

lemmas value_key_eval = value_key_def string_of_nat.simps digit_char_def

text \<open>One pass of the inner loop, by the branch it takes.\<close>

lemma get_value_cong_key:
  "fmlookup (arg_dict a) x = fmlookup (arg_dict b) x \<Longrightarrow> get_value a x d = get_value b x d"
  by (simp add: get_value_def)

lemma get_value_present:
  "get_value self x d = Inr v \<Longrightarrow> fmlookup (arg_dict self) x \<noteq> None"
  by (cases "fmlookup (arg_dict self) x") (simp_all add: get_value_def)

lemma sum_values_stop:
  "fmlookup (arg_dict self) (value_key n) = None \<Longrightarrow> sum_values fs self d n = (self, None)"
  by (subst sum_values.simps) simp

lemma sum_values_lookup_error:
  "fmlookup (arg_dict self) (value_key n) \<noteq> None \<Longrightarrow>
   get_value self (value_key n) d = Inl e \<Longrightarrow> sum_values fs self d n = (self, Some e)"
  by (subst sum_values.simps) simp

lemma sum_values_skip:
  "get_value self (value_key n) d = Inr PyNone \<Longrightarrow>
   sum_values fs self d n = sum_values fs self d (Suc n)"
  by (subst sum_values.simps) (auto dest: get_value_present)

lemma sum_values_float_error:
  "get_value self (value_key n) d = Inr v \<Longrightarrow> v \<noteq> PyNone \<Longrightarrow> py_float fs v = Inl e \<Longrightarrow>
   sum_values fs self d n = (self, Some e)"
  by (subst sum_values.simps) (auto dest: get_value_present)

lemma sum_values_add_error:
  "get_value self (value_key n) d = Inr v \<Longrightarrow> v \<noteq> PyNone \<Longrightarrow> py_float fs v = Inr x \<Longrightarrow>
   py_iadd (result self) x = Inl e \<Longrightarrow> sum_values fs self d n = (self, Some e)"
  by (subst sum_values.simps) (auto dest: get_value_present)

lemma sum_values_add:
  "get_value self (value_key n) d = Inr v \<Longrightarrow> v \<noteq> PyNone \<Longrightarrow> py_float fs v = Inr x \<Longrightarrow>
   py_iadd (result self) x = Inr r \<Longrightarrow>
   sum_values fs self d n = sum_values fs (self\<lparr>result := r\<rparr>) d (Suc n)"
  by (subst sum_values.simps) (auto dest: get_value_present)

lemma sum_values_agree:
  assumes "fmlookup (arg_dict a) (value_key k) = None"
    and "n \<le> k"
    and "\<forall>i. n \<le> i \<and> i \<le> k \<longrightarrow>
           fmlookup (arg_dict b) (value_key i) = fmlookup (arg_dict a) (value_key i)"
    and "result a = result b"
  shows "result (fst (sum_values fs a d n)) = result (fst (sum_values fs b d n))
         \<and> snd (sum_values fs a d n) = snd (sum_values fs b d n)"
  using assms
proof (induction fs a d n arbitrary: b rule: sum_values.induct)
  case (1 fs self district argnum)
  have key: "fmlookup (arg_dict b) (value_key argnum) = fmlookup (arg_dict self) (value_key argnum)"
    using "1.prems" by simp
  show ?case
  proof (cases "fmlookup (arg_dict self) (value_key argnum) = None")
    case True
    with key have "fmlookup (arg_dict b) (value_key argnum) = None" by simp
    with True "1.prems"(4) show ?thesis
      by (simp add: sum_values_stop)
  next
    case present: False
    with key have present_b: "fmlookup (arg_dict b) (value_key argnum) \<noteq> None" by simp
    have lt: "Suc argnum \<le> k"
      using present "1.prems"(1,2) by (metis Suc_leI le_neq_implies_less)
    have gv: "get_value b (value_key argnum) district = get_value self (value_key argnum) district"
      using key by (rule get_value_cong_key)
    have later: "\<forall>i. Suc argnum \<le> i \<and> i \<le> k \<longrightarrow>
           fmlookup (arg_dict b) (value_key i) = fmlookup (arg_dict self) (value_key i)"
      using "1.prems"(3) by simp
    show ?thesis
    proof (cases "get_value self (value_key argnum) district")
      case (Inl e)
      with gv have "get_value b (value_key argnum) district = Inl e" by simp
      with Inl present present_b "1.prems"(4) show ?thesis
        by (simp add: sum_values_lookup_error)
    next
      case (Inr numval)
      with gv have gb: "get_value b (value_key argnum) district = Inr numval" by simp
      show ?thesis
      proof (cases "numval = PyNone")
        case True
        have "result (fst (sum_values fs self district (Suc argnum)))
                = result (fst (sum_values fs b district (Suc argnum)))
              \<and> snd (sum_values fs self district (Suc argnum))
                = snd (sum_values fs b district (Suc argnum))"
          using "1.IH"(2)[OF present Inr _ "1.prems"(1) lt later "1.prems"(4)] True by simp
        moreover have "sum_values fs self district argnum = sum_values fs self district (Suc argnum)"
          using Inr True by (simp add: sum_values_skip)
        moreover have "sum_values fs b district argnum = sum_values fs b district (Suc argnum)"
          using gb True by (simp add: sum_values_skip)
        ultimately show ?thesis by simp
      next
        case resolved: False
        show ?thesis
        proof (cases "py_float fs numval")
          case (Inl e)
          have "sum_values fs self district argnum = (self, Some e)"
            using Inr resolved Inl by (rule sum_values_float_error)
          moreover have "sum_values fs b district argnum = (b, Some e)"
            using gb resolved Inl by (rule sum_values_float_error)
          ultimately show ?thesis using "1.prems"(4) by simp
        next
          case fl: (Inr x)
          show ?thesis
          proof (cases "py_iadd (result self) x")
            case (Inl e)
            then have "py_iadd (result b) x = Inl e" using "1.prems"(4) by simp
            then have "sum_values fs b district argnum = (b, Some e)"
              using gb resolved fl by (simp add: sum_values_add_error)
            moreover have "sum_values fs self district argnum = (self, Some e)"
              using Inr resolved fl Inl by (rule sum_values_add_error)
            ultimately show ?thesis using "1.prems"(4) by simp
          next
            case ad: (Inr r)
            then have adb: "py_iadd (result b) x = Inr r" using "1.prems"(4) by simp
            have "result (fst (sum_values fs (self\<lparr>result := r\<rparr>) district (Suc argnum)))
                    = result (fst (sum_values fs (b\<lparr>result := r\<rparr>) district (Suc argnum)))
                  \<and> snd (sum_values fs (self\<lparr>result := r\<rparr>) district (Suc argnum))
                    = snd (sum_values fs (b\<lparr>result := r\<rparr>) district (Suc argnum))"
              using "1.IH"(1)[OF present Inr resolved fl ad, of "b\<lparr>result := r\<rparr>"]
                "1.prems"(1) lt later by simp
            moreover have "sum_values fs self district argnum
                = sum_values fs (self\<lparr>result := r\<rparr>) district (Suc argnum)"
              using Inr resolved fl ad by (rule sum_values_add)
            moreover have "sum_values fs b district argnum
                = sum_values fs (b\<lparr>result := r\<rparr>) district (Suc argnum)"
              using gb resolved fl adb by (rule sum_values_add)
            ultimately show ?thesis by simp
          qed
        qed
      qed
    qed
  qed
qed

lemma sum_districts_next:
  "sum_values fs a d 1 = (a', None) \<Longrightarrow> sum_districts fs a (d # ds) = sum_districts fs a' ds"
  by simp

lemma sum_districts_raise:
  "sum_values fs a d 1 = (a', Some e) \<Longrightarrow> sum_districts fs a (d # ds) = (a', Some e)"
  by simp

lemma sum_districts_agree:
  assumes "fmlookup (arg_dict a) (value_key k) = None"
    and "1 \<le> k"
    and "\<forall>i. 1 \<le> i \<and> i \<le> k \<longrightarrow>
           fmlookup (arg_dict b) (value_key i) = fmlookup (arg_dict a) (value_key i)"
    and "result a = result b"
  shows "result (fst (sum_districts fs a ds)) = result (fst (sum_districts fs b ds))
         \<and> snd (sum_districts fs a ds) = snd (sum_districts fs b ds)"
  using assms
proof (induction ds arbitrary: a b)
  case Nil
  then show ?case by simp
next
  case (Cons d ds)
  obtain a' ea where ra: "sum_values fs a d 1 = (a', ea)" by (cases "sum_values fs a d 1")
  obtain b' eb where rb: "sum_values fs b d 1 = (b', eb)" by (cases "sum_values fs b d 1")
  have "result (fst (sum_values fs a d 1)) = result (fst (sum_values fs b d 1))
        \<and> snd (sum_values fs a d 1) = snd (sum_values fs b d 1)"
    using Cons.prems by (rule sum_values_agree)
  then have same: "result a' = result b'" "ea = eb"
    by (simp_all only: ra rb fst_conv snd_conv)
  have "arg_dict (fst (sum_values fs a d 1)) = arg_dict a"
    "arg_dict (fst (sum_values fs b d 1)) = arg_dict b"
    by (rule sum_values_arg_dict)+
  then have dict: "arg_dict a' = arg_dict a" "arg_dict b' = arg_dict b"
    by (simp_all only: ra rb fst_conv)
  have rb': "sum_values fs b d 1 = (b', ea)"
    using rb same(2) by simp
  show ?case
  proof (cases ea)
    case None
    have "result (fst (sum_districts fs a' ds)) = result (fst (sum_districts fs b' ds))
          \<and> snd (sum_districts fs a' ds) = snd (sum_districts fs b' ds)"
      using Cons.prems same(1) by (intro Cons.IH) (simp_all only: dict)
    moreover have "sum_districts fs a (d # ds) = sum_districts fs a' ds"
      using ra None by (simp only: sum_districts_next)
    moreover have "sum_districts fs b (d # ds) = sum_districts fs b' ds"
      using rb' None by (simp only: sum_districts_next)
    ultimately show ?thesis by simp
  next
    case (Some e)
    have "sum_districts fs a (d # ds) = (a', Some e)"
      using ra Some by (simp only: sum_districts_raise)
    moreover have "sum_districts fs b (d # ds) = (b', Some e)"
      using rb' Some by (simp only: sum_districts_raise)
    ultimately show ?thesis using same(1) by simp
  qed
qed

lemma sum_ignores_later_key:
  assumes "1 \<le> k" and "k < j" and "fmlookup (arg_dict self) (value_key k) = None"
  shows "result (fst (Sum_compute fs (self\<lparr>arg_dict := fmupd (value_key j) entry (arg_dict self)\<rparr>) kw))
           = result (fst (Sum_compute fs self kw))
         \<and> snd (Sum_compute fs (self\<lparr>arg_dict := fmupd (value_key j) entry (arg_dict self)\<rparr>) kw)
           = snd (Sum_compute fs self kw)"
proof -
  let ?b = "self\<lparr>arg_dict := fmupd (value_key j) entry (arg_dict self)\<rparr>"
  have other: "\<forall>i. 1 \<le> i \<and> i \<le> k \<longrightarrow>
      fmlookup (arg_dict (?b\<lparr>result := PyInt 0\<rparr>)) (value_key i)
        = fmlookup (arg_dict (self\<lparr>result := PyInt 0\<rparr>)) (value_key i)"
    using assms(2) by (auto dest: value_key_inj)
  have runs: "\<And>ds. result (fst (sum_districts fs (self\<lparr>result := PyInt 0\<rparr>) ds))
                  = result (fst (sum_districts fs (?b\<lparr>result := PyInt 0\<rparr>) ds))
              \<and> snd (sum_districts fs (self\<lparr>result := PyInt 0\<rparr>) ds)
                  = snd (sum_districts fs (?b\<lparr>result := PyInt 0\<rparr>) ds)"
    using assms(1,3) other by (intro sum_districts_agree) simp_all
  show ?thesis
    by (simp add: Sum_compute_def runs del: sum_districts.simps
        split: option.splits kwval.splits)
qed

text \<open>The result slot holds a number from \<open>self.result = 0\<close> on.\<close>

lemma py_iadd_number:
  "is_number r \<Longrightarrow> py_iadd r x = Inr (PyNum (number_of r + x))"
  by (cases r) (simp_all add: is_number_def py_iadd_def number_of_def)



text \<open>
  What the argument \<open>valueN\<close> adds for a district: nothing when it resolves to \<open>None\<close>,
  else the float of what it resolves to.
\<close>

lemma unresolved_adds_nothing:
  assumes "(get_value self (value_key i) d = Inr PyNone \<and> c = 0)
           \<or> (\<exists>v. get_value self (value_key i) d = Inr v \<and> py_float fs v = Inr c)"
    and "get_value self (value_key i) d = Inr PyNone"
  shows "c = 0"
  using assms by (auto simp: py_float_def)

lemma sum_values_total:
  assumes "fmlookup (arg_dict self) (value_key k) = None"
    and "n \<le> k"
    and "is_number (result self)"
    and "\<forall>i. n \<le> i \<and> i < k \<longrightarrow>
           (get_value self (value_key i) d = Inr PyNone \<and> x i = 0)
           \<or> (\<exists>v. get_value self (value_key i) d = Inr v \<and> py_float fs v = Inr (x i))"
  shows "sum_values fs self d n =
           (self\<lparr>result :=
              (if \<forall>i. n \<le> i \<and> i < k \<longrightarrow> get_value self (value_key i) d = Inr PyNone
               then result self
               else PyNum (number_of (result self) + sum x {n..<k}))\<rparr>, None)"
  using assms
proof (induction "k - n" arbitrary: n self)
  case 0
  then have "n = k" by simp
  moreover have "\<forall>i. k \<le> i \<and> i < k \<longrightarrow> get_value self (value_key i) d = Inr PyNone"
    by auto
  ultimately show ?case using "0.prems"(1) by (simp add: sum_values_stop)
next
  case (Suc m)
  then have lt: "n < k" and le: "Suc n \<le> k" and m: "m = k - Suc n" by simp_all
  have split: "sum x {n..<k} = x n + sum x {Suc n..<k}"
    using lt by (simp add: sum.atLeast_Suc_lessThan)
  have later: "\<forall>i. Suc n \<le> i \<and> i < k \<longrightarrow>
           (get_value self (value_key i) d = Inr PyNone \<and> x i = 0)
           \<or> (\<exists>v. get_value self (value_key i) d = Inr v \<and> py_float fs v = Inr (x i))"
    using Suc.prems(4) by simp
  have zero: "\<And>i. Suc n \<le> i \<Longrightarrow> i < k \<Longrightarrow> get_value self (value_key i) d = Inr PyNone
                \<Longrightarrow> x i = 0"
    using later unresolved_adds_nothing by blast
  have here: "(get_value self (value_key n) d = Inr PyNone \<and> x n = 0)
           \<or> (\<exists>v. get_value self (value_key n) d = Inr v \<and> py_float fs v = Inr (x n))"
    using Suc.prems(4) lt by simp
  have range: "\<And>P. (\<forall>i. n \<le> i \<and> i < k \<longrightarrow> P i) \<longleftrightarrow> P n \<and> (\<forall>i. Suc n \<le> i \<and> i < k \<longrightarrow> P i)"
    using lt by (metis Suc_leD Suc_leI le_eq_less_or_eq)
  show ?case
  proof (cases "get_value self (value_key n) d = Inr PyNone")
    case True
    with here have xn: "x n = 0" by (rule unresolved_adds_nothing[rotated -1, rotated])
    have "sum_values fs self d n = sum_values fs self d (Suc n)"
      using True by (rule sum_values_skip)
    also have "\<dots> = (self\<lparr>result :=
              (if \<forall>i. Suc n \<le> i \<and> i < k \<longrightarrow> get_value self (value_key i) d = Inr PyNone
               then result self
               else PyNum (number_of (result self) + sum x {Suc n..<k}))\<rparr>, None)"
      using m Suc.prems(1) le Suc.prems(3) later by (rule Suc.hyps(1))
    finally have run: "sum_values fs self d n = (self\<lparr>result :=
              (if \<forall>i. Suc n \<le> i \<and> i < k \<longrightarrow> get_value self (value_key i) d = Inr PyNone
               then result self
               else PyNum (number_of (result self) + sum x {Suc n..<k}))\<rparr>, None)" .
    have same: "(\<forall>i. n \<le> i \<and> i < k \<longrightarrow> get_value self (value_key i) d = Inr PyNone)
        \<longleftrightarrow> (\<forall>i. Suc n \<le> i \<and> i < k \<longrightarrow> get_value self (value_key i) d = Inr PyNone)"
      using True range[of "\<lambda>i. get_value self (value_key i) d = Inr PyNone"] by simp
    show ?thesis
      by (simp only: run same split xn add_0)
  next
    case False
    with here obtain v where gv: "get_value self (value_key n) d = Inr v"
      and fl: "py_float fs v = Inr (x n)" by blast
    from False gv have nn: "v \<noteq> PyNone" by simp
    let ?r = "PyNum (number_of (result self) + x n)"
    let ?s = "self\<lparr>result := ?r\<rparr>"
    have ia: "py_iadd (result self) (x n) = Inr ?r"
      using Suc.prems(3) by (rule py_iadd_number)
    have "sum_values fs self d n = sum_values fs ?s d (Suc n)"
      using gv nn fl ia by (rule sum_values_add)
    also have "\<dots> = (?s\<lparr>result :=
              (if \<forall>i. Suc n \<le> i \<and> i < k \<longrightarrow> get_value ?s (value_key i) d = Inr PyNone
               then result ?s
               else PyNum (number_of (result ?s) + sum x {Suc n..<k}))\<rparr>, None)"
    proof (rule Suc.hyps(1)[OF m])
      show "fmlookup (arg_dict ?s) (value_key k) = None" using Suc.prems(1) by simp
      show "Suc n \<le> k" by (rule le)
      show "is_number (result ?s)" by (simp add: is_number_def)
      show "\<forall>i. Suc n \<le> i \<and> i < k \<longrightarrow>
           (get_value ?s (value_key i) d = Inr PyNone \<and> x i = 0)
           \<or> (\<exists>v. get_value ?s (value_key i) d = Inr v \<and> py_float fs v = Inr (x i))"
        using later by simp
    qed
    also have "\<dots> = (self\<lparr>result := PyNum (number_of (result self) + sum x {n..<k})\<rparr>, None)"
    proof (cases "\<forall>i. Suc n \<le> i \<and> i < k \<longrightarrow> get_value self (value_key i) d = Inr PyNone")
      case True
      then have "sum x {Suc n..<k} = 0"
        using zero by (intro sum.neutral) simp
      with True show ?thesis by (simp add: split number_of_def)
    next
      case False
      then show ?thesis by (auto simp: split number_of_def add.assoc)
    qed
    finally have run: "sum_values fs self d n
        = (self\<lparr>result := PyNum (number_of (result self) + sum x {n..<k})\<rparr>, None)" .
    have some: "\<not> (\<forall>i. n \<le> i \<and> i < k \<longrightarrow> get_value self (value_key i) d = Inr PyNone)"
      using False range[of "\<lambda>i. get_value self (value_key i) d = Inr PyNone"] by simp
    show ?thesis
      by (simp only: run some if_False)
  qed
qed



lemma sum_district_total:
  assumes "fmlookup (arg_dict self) (value_key k) = None"
    and "1 \<le> k"
    and "\<forall>i. 1 \<le> i \<and> i < k \<longrightarrow>
           (get_value self (value_key i) (KDistrict d) = Inr PyNone \<and> x i = 0)
           \<or> (\<exists>v. get_value self (value_key i) (KDistrict d) = Inr v \<and> py_float fs v = Inr (x i))"
  shows "Sum_compute fs self (district_scope d) =
           (self\<lparr>result :=
              (if \<forall>i. 1 \<le> i \<and> i < k \<longrightarrow>
                    get_value self (value_key i) (KDistrict d) = Inr PyNone
               then PyInt 0
               else PyNum (sum x {1..<k}))\<rparr>, None)"
proof -
  let ?s = "self\<lparr>result := PyInt 0\<rparr>"
  have "sum_values fs ?s (KDistrict d) 1 =
      (?s\<lparr>result :=
         (if \<forall>i. 1 \<le> i \<and> i < k \<longrightarrow> get_value ?s (value_key i) (KDistrict d) = Inr PyNone
          then result ?s
          else PyNum (number_of (result ?s) + sum x {1..<k}))\<rparr>, None)"
  proof (rule sum_values_total)
    show "fmlookup (arg_dict ?s) (value_key k) = None" using assms(1) by simp
    show "1 \<le> k" by (rule assms(2))
    show "is_number (result ?s)" by (simp add: is_number_def)
    show "\<forall>i. 1 \<le> i \<and> i < k \<longrightarrow>
           (get_value ?s (value_key i) (KDistrict d) = Inr PyNone \<and> x i = 0)
           \<or> (\<exists>v. get_value ?s (value_key i) (KDistrict d) = Inr v \<and> py_float fs v = Inr (x i))"
      using assms(3) by simp
  qed
  then have "sum_districts fs ?s [KDistrict d] =
      (self\<lparr>result :=
         (if \<forall>i. 1 \<le> i \<and> i < k \<longrightarrow> get_value self (value_key i) (KDistrict d) = Inr PyNone
          then PyInt 0
          else PyNum (sum x {1..<k}))\<rparr>, None)"
    by (auto simp: number_of_def)
  then show ?thesis
    by (simp add: Sum_compute_def del: sum_districts.simps)
qed




lemma gap_calc_example:
  "Sum_compute fs gap_calc (district_scope d) = (gap_calc\<lparr>result := PyNum 1\<rparr>, None)"
  by (simp add: Sum_compute_def gap_calc_def init_calculator_def sum_values.simps
      value_key_eval get_value_def py_float_def py_iadd_def)

text \<open>
  C4. \<open>Sum.compute\<close> reads \<open>value1\<close>, \<open>value2\<close>, ... in this order and stops at the
  first index \<open>k\<close> that is not a key: on a district scope the result is the sum of what
  \<open>value1\<close> to \<open>value(k-1)\<close> resolve to, an unresolved one counting for nothing (and
  the \<open>int\<close> 0 that was written first when none of them resolves). An entry at an index
  after a missing one is never read: adding or changing it changes neither the result
  nor the outcome, for any keyword arguments. With \<open>value1 = 1\<close> and \<open>value3 = 5\<close> and
  no \<open>value2\<close> the result on a district is 1.
\<close>

theorem sum_stops_at_first_gap:
  "(1 \<le> k \<and> fmlookup (arg_dict self) (value_key k) = None
      \<and> (\<forall>i. 1 \<le> i \<and> i < k \<longrightarrow>
             (get_value self (value_key i) (KDistrict d) = Inr PyNone \<and> x i = 0)
             \<or> (\<exists>v. get_value self (value_key i) (KDistrict d) = Inr v
                      \<and> py_float fs v = Inr (x i)))
      \<longrightarrow> Sum_compute fs self (district_scope d)
            = (self\<lparr>result :=
                 (if \<forall>i. 1 \<le> i \<and> i < k \<longrightarrow>
                       get_value self (value_key i) (KDistrict d) = Inr PyNone
                  then PyInt 0
                  else PyNum (sum x {1..<k}))\<rparr>, None))
   \<and> (1 \<le> k \<and> k < j \<and> fmlookup (arg_dict self) (value_key k) = None \<longrightarrow>
        result (fst (Sum_compute fs
                  (self\<lparr>arg_dict := fmupd (value_key j) entry (arg_dict self)\<rparr>) kw))
          = result (fst (Sum_compute fs self kw))
        \<and> snd (Sum_compute fs
                  (self\<lparr>arg_dict := fmupd (value_key j) entry (arg_dict self)\<rparr>) kw)
          = snd (Sum_compute fs self kw))
   \<and> Sum_compute fs gap_calc (district_scope d) = (gap_calc\<lparr>result := PyNum 1\<rparr>, None)"
proof (intro conjI impI)
  assume "1 \<le> k \<and> fmlookup (arg_dict self) (value_key k) = None
      \<and> (\<forall>i. 1 \<le> i \<and> i < k \<longrightarrow>
             (get_value self (value_key i) (KDistrict d) = Inr PyNone \<and> x i = 0)
             \<or> (\<exists>v. get_value self (value_key i) (KDistrict d) = Inr v
                      \<and> py_float fs v = Inr (x i)))"
  then show "Sum_compute fs self (district_scope d)
            = (self\<lparr>result :=
                 (if \<forall>i. 1 \<le> i \<and> i < k \<longrightarrow>
                       get_value self (value_key i) (KDistrict d) = Inr PyNone
                  then PyInt 0
                  else PyNum (sum x {1..<k}))\<rparr>, None)"
    by (intro sum_district_total) simp_all
next
  assume h: "1 \<le> k \<and> k < j \<and> fmlookup (arg_dict self) (value_key k) = None"
  then have "result (fst (Sum_compute fs
                  (self\<lparr>arg_dict := fmupd (value_key j) entry (arg_dict self)\<rparr>) kw))
          = result (fst (Sum_compute fs self kw))
        \<and> snd (Sum_compute fs
                  (self\<lparr>arg_dict := fmupd (value_key j) entry (arg_dict self)\<rparr>) kw)
          = snd (Sum_compute fs self kw)"
    by (intro sum_ignores_later_key[where k = k]) simp_all
  then show "result (fst (Sum_compute fs
                  (self\<lparr>arg_dict := fmupd (value_key j) entry (arg_dict self)\<rparr>) kw))
          = result (fst (Sum_compute fs self kw))"
    and "snd (Sum_compute fs
                  (self\<lparr>arg_dict := fmupd (value_key j) entry (arg_dict self)\<rparr>) kw)
          = snd (Sum_compute fs self kw)"
    by simp_all
next
  show "Sum_compute fs gap_calc (district_scope d) = (gap_calc\<lparr>result := PyNum 1\<rparr>, None)"
    by (rule gap_calc_example)
qed

theorem sum_stops_at_first_gap_witness:
  "fmlookup (arg_dict gap_calc) (value_key 2) = None
   \<and> fmlookup (arg_dict gap_calc) (value_key 3) = Some (''literal'', PyNum 5)
   \<and> get_value gap_calc (value_key 1) (KDistrict bare_district) = Inr (PyNum 1)
   \<and> Sum_compute no_parse gap_calc (district_scope bare_district)
       = (gap_calc\<lparr>result := PyNum 1\<rparr>, None)
   \<and> fmlookup (arg_dict one_calc) (value_key 2) = None
   \<and> result (fst (Sum_compute no_parse
         (one_calc\<lparr>arg_dict := fmupd (value_key 3) (''literal'', PyNum 5) (arg_dict one_calc)\<rparr>)
         (district_scope bare_district)))
       = result (fst (Sum_compute no_parse one_calc (district_scope bare_district)))"
proof -
  have g2: "fmlookup (arg_dict gap_calc) (value_key 2) = None"
    and g3: "fmlookup (arg_dict gap_calc) (value_key 3) = Some (''literal'', PyNum 5)"
    and g1: "get_value gap_calc (value_key 1) (KDistrict bare_district) = Inr (PyNum 1)"
    and o2: "fmlookup (arg_dict one_calc) (value_key 2) = None"
    by (simp_all add: gap_calc_def one_calc_def init_calculator_def value_key_eval get_value_def)
  have below: "\<forall>i. 1 \<le> i \<and> i < (2::nat) \<longrightarrow>
      (get_value gap_calc (value_key i) (KDistrict bare_district) = Inr PyNone \<and> (\<lambda>i. 1::real) i = 0)
      \<or> (\<exists>v. get_value gap_calc (value_key i) (KDistrict bare_district) = Inr v
               \<and> py_float no_parse v = Inr ((\<lambda>i. 1::real) i))"
  proof (intro allI impI)
    fix i :: nat
    assume "1 \<le> i \<and> i < 2"
    then have "i = 1" by simp
    then show "(get_value gap_calc (value_key i) (KDistrict bare_district) = Inr PyNone \<and> (\<lambda>i. 1::real) i = 0)
      \<or> (\<exists>v. get_value gap_calc (value_key i) (KDistrict bare_district) = Inr v
               \<and> py_float no_parse v = Inr ((\<lambda>i. 1::real) i))"
      using g1 by (simp add: py_float_def)
  qed
  show ?thesis
    using sum_stops_at_first_gap [where self = gap_calc and k = 2 and d = bare_district
        and x = "\<lambda>i. 1" and fs = no_parse and j = 3]
      sum_stops_at_first_gap [where self = one_calc and k = 2 and j = 3 and fs = no_parse
        and entry = "(''literal'', PyNum 5)" and kw = "district_scope bare_district"
        and x = "\<lambda>i. 1" and d = bare_district]
      g1 g2 g3 o2 below
    by simp
qed

subsection \<open>What Sum leaves in the result slot\<close>









subsection \<open>Percent on a plan\<close>

lemma percent_plan_loop_totals:
  assumes "\<forall>d\<in>set ds.
      get_value self ''numerator'' (KDistrict d) = Inr (nv d)
      \<and> get_value self ''denominator'' (KDistrict d) = Inr (dv d)
      \<and> (nv d \<noteq> PyNone \<and> dv d \<noteq> PyNone \<longrightarrow>
           py_float fs (nv d) = Inr (n d) \<and> py_float fs (dv d) = Inr (m d))"
  shows "percent_plan_loop fs self ds a b =
     Inr (a + sum_list (map n (filter (\<lambda>d. nv d \<noteq> PyNone \<and> dv d \<noteq> PyNone) ds)),
          b + sum_list (map m (filter (\<lambda>d. nv d \<noteq> PyNone \<and> dv d \<noteq> PyNone) ds)))"
  using assms
proof (induction ds arbitrary: a b)
  case Nil
  show ?case by simp
next
  case (Cons d ds)
  then have rest: "\<And>a b. percent_plan_loop fs self ds a b =
     Inr (a + sum_list (map n (filter (\<lambda>d. nv d \<noteq> PyNone \<and> dv d \<noteq> PyNone) ds)),
          b + sum_list (map m (filter (\<lambda>d. nv d \<noteq> PyNone \<and> dv d \<noteq> PyNone) ds)))"
    by simp
  from Cons.prems have here:
    "get_value self ''numerator'' (KDistrict d) = Inr (nv d)"
    "get_value self ''denominator'' (KDistrict d) = Inr (dv d)"
    "nv d \<noteq> PyNone \<and> dv d \<noteq> PyNone \<longrightarrow>
       py_float fs (nv d) = Inr (n d) \<and> py_float fs (dv d) = Inr (m d)"
    by simp_all
  show ?case
  proof (cases "nv d \<noteq> PyNone \<and> dv d \<noteq> PyNone")
    case True
    with here rest show ?thesis by (simp add: add.assoc)
  next
    case False
    with here rest show ?thesis by auto
  qed
qed

lemma share_calc_example:
  "Percent_compute fs share_calc
     (plan_scope (plan_with [counted_district 1 2, counted_district 3 2]))
   = (share_calc\<lparr>result := PyNum 1\<rparr>, None)"
  by (simp add: Percent_compute_def plan_with_def share_calc_def init_calculator_def
      counted_district_def get_value_def py_float_def percent_finish_def)

lemma share_calc_not_mean:
  "Percent_compute fs share_calc
     (plan_scope (plan_with [counted_district 1 1, counted_district 1 3]))
   = (share_calc\<lparr>result := PyNum (1 / 2)\<rparr>, None)
   \<and> Percent_compute fs share_calc (district_scope (counted_district 1 1))
   = (share_calc\<lparr>result := PyNum 1\<rparr>, None)
   \<and> Percent_compute fs share_calc (district_scope (counted_district 1 3))
   = (share_calc\<lparr>result := PyNum (1 / 3)\<rparr>, None)"
  by (simp add: Percent_compute_def plan_with_def share_calc_def init_calculator_def
      counted_district_def get_value_def py_float_def percent_finish_def)

text \<open>
  C1. On a plan scope \<open>Percent.compute\<close> adds up the numerators and the denominators
  separately over the districts of the plan, leaving out of both sums every district
  whose numerator or denominator resolves to \<open>None\<close>, and divides the two sums once.
  This is proved for a plan whose districts resolve both arguments without an exception,
  to \<open>None\<close> or to values that convert to numbers. For two districts with numerator 1
  and 3 and denominator 2 and 2 the result is \<open>(1 + 3) / (2 + 2) = 1\<close>. For numerators
  1 and 1 and denominators 1 and 3 it is \<open>1 / 2\<close>, while the districts alone give 1 and
  \<open>1 / 3\<close>, whose mean is \<open>2 / 3\<close>.
\<close>

theorem percent_plan_accumulates:
  "((\<forall>d\<in>set (get_districts_at_version p (version p)).
        get_value self ''numerator'' (KDistrict d) = Inr (nv d)
        \<and> get_value self ''denominator'' (KDistrict d) = Inr (dv d)
        \<and> (nv d \<noteq> PyNone \<and> dv d \<noteq> PyNone \<longrightarrow>
             py_float fs (nv d) = Inr (n d) \<and> py_float fs (dv d) = Inr (m d)))
     \<longrightarrow> Percent_compute fs self (plan_scope p) =
         (let used = filter (\<lambda>d. nv d \<noteq> PyNone \<and> dv d \<noteq> PyNone)
                       (get_districts_at_version p (version p));
              num = sum_list (map n used);
              den = sum_list (map m used)
          in if den = 0 then (self, Some ZeroDivisionError)
             else (self\<lparr>result := PyNum (num / den)\<rparr>, None)))
   \<and> Percent_compute fs share_calc
         (plan_scope (plan_with [counted_district 1 2, counted_district 3 2]))
       = (share_calc\<lparr>result := PyNum ((1 + 3) / (2 + 2))\<rparr>, None)
   \<and> (1 + 3) / (2 + 2) = (1::real)
   \<and> Percent_compute fs share_calc
         (plan_scope (plan_with [counted_district 1 1, counted_district 1 3]))
       = (share_calc\<lparr>result := PyNum (1 / 2)\<rparr>, None)
   \<and> Percent_compute fs share_calc (district_scope (counted_district 1 1))
       = (share_calc\<lparr>result := PyNum 1\<rparr>, None)
   \<and> Percent_compute fs share_calc (district_scope (counted_district 1 3))
       = (share_calc\<lparr>result := PyNum (1 / 3)\<rparr>, None)"
proof (intro conjI impI)
  assume h: "\<forall>d\<in>set (get_districts_at_version p (version p)).
        get_value self ''numerator'' (KDistrict d) = Inr (nv d)
        \<and> get_value self ''denominator'' (KDistrict d) = Inr (dv d)
        \<and> (nv d \<noteq> PyNone \<and> dv d \<noteq> PyNone \<longrightarrow>
             py_float fs (nv d) = Inr (n d) \<and> py_float fs (dv d) = Inr (m d))"
  have "percent_plan_loop fs self (get_districts_at_version p (version p)) 0 0 =
     Inr (0 + sum_list (map n (filter (\<lambda>d. nv d \<noteq> PyNone \<and> dv d \<noteq> PyNone)
                                  (get_districts_at_version p (version p)))),
          0 + sum_list (map m (filter (\<lambda>d. nv d \<noteq> PyNone \<and> dv d \<noteq> PyNone)
                                  (get_districts_at_version p (version p)))))"
    using h by (rule percent_plan_loop_totals)
  then show "Percent_compute fs self (plan_scope p) =
         (let used = filter (\<lambda>d. nv d \<noteq> PyNone \<and> dv d \<noteq> PyNone)
                       (get_districts_at_version p (version p));
              num = sum_list (map n used);
              den = sum_list (map m used)
          in if den = 0 then (self, Some ZeroDivisionError)
             else (self\<lparr>result := PyNum (num / den)\<rparr>, None))"
    by (simp add: Percent_compute_def percent_finish_def py_float_def Let_def)
next
  show "Percent_compute fs share_calc
         (plan_scope (plan_with [counted_district 1 2, counted_district 3 2]))
       = (share_calc\<lparr>result := PyNum ((1 + 3) / (2 + 2))\<rparr>, None)"
    using share_calc_example[of fs] by simp
next
  show "(1 + 3) / (2 + 2) = (1::real)" by simp
next
  show "Percent_compute fs share_calc
         (plan_scope (plan_with [counted_district 1 1, counted_district 1 3]))
       = (share_calc\<lparr>result := PyNum (1 / 2)\<rparr>, None)"
    and "Percent_compute fs share_calc (district_scope (counted_district 1 1))
       = (share_calc\<lparr>result := PyNum 1\<rparr>, None)"
    and "Percent_compute fs share_calc (district_scope (counted_district 1 3))
       = (share_calc\<lparr>result := PyNum (1 / 3)\<rparr>, None)"
    using share_calc_not_mean[of fs] by simp_all
qed

theorem percent_plan_accumulates_witness:
  "get_value share_calc ''numerator'' (KDistrict (counted_district 1 2)) = Inr (PyNum 1)
   \<and> get_value share_calc ''denominator'' (KDistrict (counted_district 1 2)) = Inr (PyNum 2)
   \<and> get_value share_calc ''numerator'' (KDistrict dem_only_district) = Inr (PyNum 9)
   \<and> get_value share_calc ''denominator'' (KDistrict dem_only_district) = Inr PyNone
   \<and> get_value share_calc ''numerator'' (KDistrict (counted_district 3 2)) = Inr (PyNum 3)
   \<and> get_value share_calc ''denominator'' (KDistrict (counted_district 3 2)) = Inr (PyNum 2)
   \<and> Percent_compute no_parse share_calc
        (plan_scope (plan_with [counted_district 1 2, dem_only_district, counted_district 3 2]))
      = (share_calc\<lparr>result := PyNum 1\<rparr>, None)"
proof -
  let ?ds = "[counted_district 1 2, dem_only_district, counted_district 3 2]"
  have gv: "\<forall>d\<in>set ?ds.
        get_value share_calc ''numerator'' (KDistrict d) = Inr (measured ''dem'' d)
        \<and> get_value share_calc ''denominator'' (KDistrict d) = Inr (measured ''pop'' d)"
    by (simp add: get_value_def share_calc_def init_calculator_def measured_def
        counted_district_def dem_only_district_def)
  have fl: "\<forall>d\<in>set ?ds. measured ''dem'' d \<noteq> PyNone \<and> measured ''pop'' d \<noteq> PyNone \<longrightarrow>
      py_float no_parse (measured ''dem'' d) = Inr (number_of (measured ''dem'' d))
      \<and> py_float no_parse (measured ''pop'' d) = Inr (number_of (measured ''pop'' d))"
    by (simp add: measured_def counted_district_def dem_only_district_def py_float_def
        number_of_def)
  have m: "measured ''pop'' dem_only_district = PyNone"
    "measured ''dem'' dem_only_district = PyNum 9"
    "measured ''dem'' (counted_district 1 2) = PyNum 1"
    "measured ''pop'' (counted_district 1 2) = PyNum 2"
    "measured ''dem'' (counted_district 3 2) = PyNum 3"
    "measured ''pop'' (counted_district 3 2) = PyNum 2"
    by (simp_all add: measured_def counted_district_def dem_only_district_def)
  have ds: "get_districts_at_version (plan_with ?ds) (version (plan_with ?ds)) = ?ds"
    by (simp add: plan_with_def)
  show ?thesis
    using percent_plan_accumulates [where p = "plan_with ?ds" and self = share_calc
        and fs = no_parse and nv = "measured ''dem''" and dv = "measured ''pop''"
        and n = "\<lambda>d. number_of (measured ''dem'' d)"
        and m = "\<lambda>d. number_of (measured ''pop'' d)"] gv fl
    by (simp add: ds m number_of_def)
qed

subsection \<open>Threshold and Range on a plan\<close>

lemma get_value_no_district:
  "fmlookup (arg_dict self) a \<noteq> None \<Longrightarrow> \<exists>v. get_value self a KNone = Inr v"
  by (cases "fmlookup (arg_dict self) a") (auto simp: get_value_def)

lemma threshold_unrecognized:
  "kw ''district'' = None \<Longrightarrow> kw ''plans'' = None \<Longrightarrow> Threshold_compute fs self kw = (self, None)"
  by (simp add: Threshold_compute_def)

lemma range_unrecognized:
  "kw ''district'' = None \<Longrightarrow> kw ''plans'' = None \<Longrightarrow> Range_compute fs self kw = (self, None)"
  by (simp add: Range_compute_def)

lemma threshold_plans:
  assumes "kw ''district'' = None" and "kw ''plans'' = Some x"
    and "get_value self ''value'' KNone = Inr val"
    and "get_value self ''threshold'' KNone = Inr thr"
  shows "val = PyNone \<or> thr = PyNone \<Longrightarrow> Threshold_compute fs self kw = (self, None)"
    and "py_float fs val = Inr v \<Longrightarrow> py_float fs thr = Inr t \<Longrightarrow>
           Threshold_compute fs self kw = (self\<lparr>result := PyBool (t < v)\<rparr>, None)"
  using assms
  by (auto simp: Threshold_compute_def threshold_body_def dest: py_float_not_None)

lemma range_plans:
  assumes "kw ''district'' = None" and "kw ''plans'' = Some x"
    and "get_value self ''value'' KNone = Inr val"
    and "get_value self ''min'' KNone = Inr minval"
    and "get_value self ''max'' KNone = Inr maxval"
  shows "val = PyNone \<or> minval = PyNone \<or> maxval = PyNone \<Longrightarrow>
           Range_compute fs self kw = (self, None)"
    and "py_float fs val = Inr v \<Longrightarrow> py_float fs minval = Inr lo \<Longrightarrow>
         py_float fs maxval = Inr hi \<Longrightarrow>
           Range_compute fs self kw = (self\<lparr>result := PyBool (lo < v \<and> v < hi)\<rparr>, None)"
  using assms
  by (auto simp: Range_compute_def range_body_def dest: py_float_not_None)

lemma threshold_plans_subject:
  assumes "kw ''district'' = None" and "kw ''plans'' = Some x"
    and "fmlookup (arg_dict self) ''value'' = Some (''subject'', w)"
    and "fmlookup (arg_dict self) ''threshold'' \<noteq> None"
  shows "Threshold_compute fs self kw = (self, None)"
proof -
  have v: "get_value self ''value'' KNone = Inr PyNone"
    using assms(3) by (rule get_value_subject_no_district)
  obtain thr where t: "get_value self ''threshold'' KNone = Inr thr"
    using get_value_no_district[OF assms(4)] by blast
  show ?thesis by (rule threshold_plans(1)[OF assms(1,2) v t]) simp
qed

lemma range_plans_subject:
  assumes "kw ''district'' = None" and "kw ''plans'' = Some x"
    and "fmlookup (arg_dict self) ''value'' = Some (''subject'', w)"
    and "fmlookup (arg_dict self) ''min'' \<noteq> None"
    and "fmlookup (arg_dict self) ''max'' \<noteq> None"
  shows "Range_compute fs self kw = (self, None)"
proof -
  have v: "get_value self ''value'' KNone = Inr PyNone"
    using assms(3) by (rule get_value_subject_no_district)
  obtain lo where l: "get_value self ''min'' KNone = Inr lo"
    using get_value_no_district[OF assms(4)] by blast
  obtain hi where h: "get_value self ''max'' KNone = Inr hi"
    using get_value_no_district[OF assms(5)] by blast
  show ?thesis by (rule range_plans(1)[OF assms(1,2) v l h]) simp
qed

text \<open>
  C2, as stated, fails under the key that the two calculators test for a plan,
  \<open>plans\<close>: with literal arguments they compare them and set a boolean, which can be
  false.
\<close>

theorem threshold_range_plans_counterexample:
  "Threshold_compute no_parse (threshold_calc 3 5) [''plans'' \<mapsto> KPlan (plan_with [])]
     = ((threshold_calc 3 5)\<lparr>result := PyBool False\<rparr>, None)
   \<and> Range_compute no_parse (range_calc 1 1 10) [''plans'' \<mapsto> KPlan (plan_with [])]
     = ((range_calc 1 1 10)\<lparr>result := PyBool False\<rparr>, None)"
  by (simp add: Threshold_compute_def threshold_body_def threshold_calc_def
      Range_compute_def range_body_def range_calc_def
      init_calculator_def get_value_def py_float_def)

text \<open>
  C2, amended. A plan passed under the keyword \<open>plan\<close>, the plan scope of \<open>Sum\<close> and
  \<open>Percent\<close>, makes \<open>Threshold.compute\<close> and \<open>Range.compute\<close> return at once for
  every argument mapping, as any keyword arguments without \<open>district\<close> and \<open>plans\<close>
  do: the result stays as it was, never a boolean. Under the keyword \<open>plans\<close> they go on
  without a district: the result stays as it was when a required argument is unresolved,
  as it is whenever the value is a subject reference, and it is set to the comparison,
  true or false, when the required arguments resolve to numbers.
\<close>

theorem threshold_range_plan_keys:
  "Threshold_compute fs self (plan_scope p) = (self, None)
   \<and> Range_compute fs self (plan_scope p) = (self, None)
   \<and> (kw ''district'' = None \<and> kw ''plans'' = None \<longrightarrow>
        Threshold_compute fs self kw = (self, None) \<and> Range_compute fs self kw = (self, None))
   \<and> (kw ''district'' = None \<and> kw ''plans'' = Some x
        \<and> get_value self ''value'' KNone = Inr val
        \<and> get_value self ''threshold'' KNone = Inr thr \<longrightarrow>
        (val = PyNone \<or> thr = PyNone \<longrightarrow> Threshold_compute fs self kw = (self, None))
        \<and> (py_float fs val = Inr v \<and> py_float fs thr = Inr t \<longrightarrow>
             Threshold_compute fs self kw = (self\<lparr>result := PyBool (v > t)\<rparr>, None)))
   \<and> (kw ''district'' = None \<and> kw ''plans'' = Some x
        \<and> get_value self ''value'' KNone = Inr val
        \<and> get_value self ''min'' KNone = Inr minval
        \<and> get_value self ''max'' KNone = Inr maxval \<longrightarrow>
        (val = PyNone \<or> minval = PyNone \<or> maxval = PyNone \<longrightarrow>
           Range_compute fs self kw = (self, None))
        \<and> (py_float fs val = Inr v \<and> py_float fs minval = Inr lo
             \<and> py_float fs maxval = Inr hi \<longrightarrow>
             Range_compute fs self kw
               = (self\<lparr>result := PyBool (lo < v \<and> v < hi)\<rparr>, None)))
   \<and> (kw ''district'' = None \<and> kw ''plans'' = Some x
        \<and> fmlookup (arg_dict self) ''value'' = Some (''subject'', w)
        \<and> fmlookup (arg_dict self) ''threshold'' \<noteq> None \<longrightarrow>
        Threshold_compute fs self kw = (self, None))
   \<and> (kw ''district'' = None \<and> kw ''plans'' = Some x
        \<and> fmlookup (arg_dict self) ''value'' = Some (''subject'', w)
        \<and> fmlookup (arg_dict self) ''min'' \<noteq> None
        \<and> fmlookup (arg_dict self) ''max'' \<noteq> None \<longrightarrow>
        Range_compute fs self kw = (self, None))"
proof (intro conjI impI; (elim conjE)?)
  show "Threshold_compute fs self (plan_scope p) = (self, None)"
    by (rule threshold_unrecognized) simp_all
  show "Range_compute fs self (plan_scope p) = (self, None)"
    by (rule range_unrecognized) simp_all
next
  assume "kw ''district'' = None" "kw ''plans'' = None"
  then show "Threshold_compute fs self kw = (self, None)"
    and "Range_compute fs self kw = (self, None)"
    by (rule threshold_unrecognized, rule range_unrecognized)
next
  assume "kw ''district'' = None" "kw ''plans'' = Some x"
    "get_value self ''value'' KNone = Inr val" "get_value self ''threshold'' KNone = Inr thr"
    "val = PyNone \<or> thr = PyNone"
  then show "Threshold_compute fs self kw = (self, None)" by (rule threshold_plans(1))
next
  assume "kw ''district'' = None" "kw ''plans'' = Some x"
    "get_value self ''value'' KNone = Inr val" "get_value self ''threshold'' KNone = Inr thr"
    "py_float fs val = Inr v" "py_float fs thr = Inr t"
  then show "Threshold_compute fs self kw = (self\<lparr>result := PyBool (v > t)\<rparr>, None)"
    by (rule threshold_plans(2))
next
  assume "kw ''district'' = None" "kw ''plans'' = Some x"
    "get_value self ''value'' KNone = Inr val" "get_value self ''min'' KNone = Inr minval"
    "get_value self ''max'' KNone = Inr maxval"
    "val = PyNone \<or> minval = PyNone \<or> maxval = PyNone"
  then show "Range_compute fs self kw = (self, None)" by (rule range_plans(1))
next
  assume "kw ''district'' = None" "kw ''plans'' = Some x"
    "get_value self ''value'' KNone = Inr val" "get_value self ''min'' KNone = Inr minval"
    "get_value self ''max'' KNone = Inr maxval"
    "py_float fs val = Inr v" "py_float fs minval = Inr lo" "py_float fs maxval = Inr hi"
  then show "Range_compute fs self kw = (self\<lparr>result := PyBool (lo < v \<and> v < hi)\<rparr>, None)"
    by (rule range_plans(2))
next
  assume "kw ''district'' = None" "kw ''plans'' = Some x"
    "fmlookup (arg_dict self) ''value'' = Some (''subject'', w)"
    "fmlookup (arg_dict self) ''threshold'' \<noteq> None"
  then show "Threshold_compute fs self kw = (self, None)" by (rule threshold_plans_subject)
next
  assume "kw ''district'' = None" "kw ''plans'' = Some x"
    "fmlookup (arg_dict self) ''value'' = Some (''subject'', w)"
    "fmlookup (arg_dict self) ''min'' \<noteq> None" "fmlookup (arg_dict self) ''max'' \<noteq> None"
  then show "Range_compute fs self kw = (self, None)" by (rule range_plans_subject)
qed

theorem threshold_range_plan_keys_witness:
  "plan_scope (plan_with []) ''district'' = None
   \<and> plan_scope (plan_with []) ''plans'' = None
   \<and> Threshold_compute no_parse literal_calc (plan_scope (plan_with [])) = (literal_calc, None)
   \<and> Range_compute no_parse literal_calc (plan_scope (plan_with [])) = (literal_calc, None)
   \<and> get_value literal_calc ''value'' KNone = Inr (PyNum 5)
   \<and> get_value literal_calc ''threshold'' KNone = Inr (PyNum 3)
   \<and> get_value literal_calc ''min'' KNone = Inr (PyNum 1)
   \<and> get_value literal_calc ''max'' KNone = Inr (PyNum 10)
   \<and> Threshold_compute no_parse literal_calc [''plans'' \<mapsto> KPlan (plan_with [])]
       = (literal_calc\<lparr>result := PyBool True\<rparr>, None)
   \<and> Range_compute no_parse literal_calc [''plans'' \<mapsto> KPlan (plan_with [])]
       = (literal_calc\<lparr>result := PyBool True\<rparr>, None)
   \<and> fmlookup (arg_dict flag_calc) ''value'' = Some (''subject'', PyStr ''pop'')
   \<and> get_value flag_calc ''value'' KNone = Inr PyNone
   \<and> get_value flag_calc ''threshold'' KNone = Inr (PyNum 5)
   \<and> get_value flag_calc ''min'' KNone = Inr (PyNum 1)
   \<and> get_value flag_calc ''max'' KNone = Inr (PyNum 10)
   \<and> Threshold_compute no_parse flag_calc [''plans'' \<mapsto> KPlan (plan_with [])]
       = (flag_calc, None)
   \<and> Range_compute no_parse flag_calc [''plans'' \<mapsto> KPlan (plan_with [])]
       = (flag_calc, None)"
proof -
  let ?pl = "plan_with []"
  let ?kw = "[''plans'' \<mapsto> KPlan ?pl] :: kwargs"
  have k: "plan_scope ?pl ''district'' = None" "plan_scope ?pl ''plans'' = None"
    by simp_all
  have kp: "?kw ''district'' = None" "?kw ''plans'' = Some (KPlan ?pl)"
    by simp_all
  have lit: "get_value literal_calc ''value'' KNone = Inr (PyNum 5)"
    "get_value literal_calc ''threshold'' KNone = Inr (PyNum 3)"
    "get_value literal_calc ''min'' KNone = Inr (PyNum 1)"
    "get_value literal_calc ''max'' KNone = Inr (PyNum 10)"
    by (simp_all add: get_value_def literal_calc_def init_calculator_def)
  have fl: "py_float no_parse (PyNum 5) = Inr 5" "py_float no_parse (PyNum 3) = Inr 3"
    "py_float no_parse (PyNum 1) = Inr 1" "py_float no_parse (PyNum 10) = Inr 10"
    by (simp_all add: py_float_def)
  have sub: "fmlookup (arg_dict flag_calc) ''value'' = Some (''subject'', PyStr ''pop'')"
    and present: "fmlookup (arg_dict flag_calc) ''threshold'' \<noteq> None"
      "fmlookup (arg_dict flag_calc) ''min'' \<noteq> None"
      "fmlookup (arg_dict flag_calc) ''max'' \<noteq> None"
    by (simp_all add: flag_calc_def init_calculator_def)
  have flag: "get_value flag_calc ''value'' KNone = Inr PyNone"
    "get_value flag_calc ''threshold'' KNone = Inr (PyNum 5)"
    "get_value flag_calc ''min'' KNone = Inr (PyNum 1)"
    "get_value flag_calc ''max'' KNone = Inr (PyNum 10)"
    by (simp_all add: get_value_def flag_calc_def init_calculator_def)
  have none: "PyNone = PyNone \<or> PyNum 5 = PyNone"
    "PyNone = PyNone \<or> PyNum 1 = PyNone \<or> PyNum 10 = PyNone"
    by simp_all
  have r1: "Threshold_compute no_parse literal_calc (plan_scope ?pl) = (literal_calc, None)
      \<and> Range_compute no_parse literal_calc (plan_scope ?pl) = (literal_calc, None)"
    by (rule threshold_range_plan_keys [where self = literal_calc and fs = no_parse
          and kw = "plan_scope ?pl", THEN conjunct2, THEN conjunct2, THEN conjunct1, THEN mp])
       (intro conjI k)
  have r2: "Threshold_compute no_parse literal_calc ?kw
      = (literal_calc\<lparr>result := PyBool ((3::real) < 5)\<rparr>, None)"
    by (rule threshold_range_plan_keys [where self = literal_calc and fs = no_parse
          and kw = ?kw and x = "KPlan ?pl" and val = "PyNum 5" and thr = "PyNum 3"
          and v = 5 and t = 3, THEN conjunct2, THEN conjunct2, THEN conjunct2, THEN conjunct1, THEN mp, THEN conjunct2, THEN mp])
       (intro conjI kp lit fl)+
  have r3: "Range_compute no_parse literal_calc ?kw
      = (literal_calc\<lparr>result := PyBool ((1::real) < 5 \<and> (5::real) < 10)\<rparr>, None)"
    by (rule threshold_range_plan_keys [where self = literal_calc and fs = no_parse
          and kw = ?kw and x = "KPlan ?pl" and val = "PyNum 5" and minval = "PyNum 1"
          and maxval = "PyNum 10" and v = 5 and lo = 1 and hi = 10,
          THEN conjunct2, THEN conjunct2, THEN conjunct2, THEN conjunct2, THEN conjunct1, THEN mp, THEN conjunct2, THEN mp])
       (intro conjI kp lit fl)+
  have r4: "Threshold_compute no_parse flag_calc ?kw = (flag_calc, None)"
    by (rule threshold_range_plan_keys [where self = flag_calc and fs = no_parse
          and kw = ?kw and x = "KPlan ?pl" and val = PyNone and thr = "PyNum 5",
          THEN conjunct2, THEN conjunct2, THEN conjunct2, THEN conjunct1, THEN mp, THEN conjunct1, THEN mp])
       (intro conjI kp flag none)+
  have r5: "Range_compute no_parse flag_calc ?kw = (flag_calc, None)"
    by (rule threshold_range_plan_keys [where self = flag_calc and fs = no_parse
          and kw = ?kw and x = "KPlan ?pl" and val = PyNone and minval = "PyNum 1"
          and maxval = "PyNum 10", THEN conjunct2, THEN conjunct2, THEN conjunct2, THEN conjunct2, THEN conjunct1, THEN mp, THEN conjunct1, THEN mp])
       (intro conjI kp flag none)+
  have r6: "Threshold_compute no_parse flag_calc ?kw = (flag_calc, None)"
    by (rule threshold_range_plan_keys [where self = flag_calc and fs = no_parse
          and kw = ?kw and x = "KPlan ?pl" and w = "PyStr ''pop''", THEN conjunct2, THEN conjunct2, THEN conjunct2, THEN conjunct2, THEN conjunct2, THEN conjunct1, THEN mp])
       (intro conjI kp sub present)
  have r7: "Range_compute no_parse flag_calc ?kw = (flag_calc, None)"
    by (rule threshold_range_plan_keys [where self = flag_calc and fs = no_parse
          and kw = ?kw and x = "KPlan ?pl" and w = "PyStr ''pop''", THEN conjunct2, THEN conjunct2, THEN conjunct2, THEN conjunct2, THEN conjunct2, THEN conjunct2, THEN mp])
       (intro conjI kp sub present)
  from r2 have r2': "Threshold_compute no_parse literal_calc ?kw
      = (literal_calc\<lparr>result := PyBool True\<rparr>, None)" by simp
  from r3 have r3': "Range_compute no_parse literal_calc ?kw
      = (literal_calc\<lparr>result := PyBool True\<rparr>, None)" by simp
  show ?thesis
    using r1 r6 r7 by (intro conjI k lit r2' r3' sub flag r4 r5) simp_all
qed

subsection \<open>Missing data\<close>







end
